theory Spec2Isabelle
  imports Complex_Main "HOL-Library.Product_Lexorder" "HOL-Library.Multiset"
begin

section \<open>Errors\<close>

text \<open>
  Every handler either returns a value or raises. A raise is a value of \<open>error\<close>:
  \<open>HTTPException status detail\<close> is the exception the handlers raise themselves, the
  other constructors are the exceptions of the Python runtime, of the database session
  and of the response models that the handlers do not catch.
\<close>

datatype error =
    HTTPException nat string
  | ValueError
  | OverflowError
  | ZeroDivisionError
  | IntegrityError
  | ValidationError

definition bind_result :: "error + 'a \<Rightarrow> ('a \<Rightarrow> error + 'b) \<Rightarrow> error + 'b" where
  "bind_result r f = (case r of Inl e \<Rightarrow> Inl e | Inr v \<Rightarrow> f v)"

section \<open>Calendar dates\<close>

text \<open>
  \<open>datetime.date\<close>: a proleptic Gregorian date with year 1..9999. The constructor and
  \<open>replace\<close> raise \<open>ValueError\<close> on a field out of range; adding a \<open>timedelta\<close>
  raises \<open>OverflowError\<close> when the result leaves the range.
\<close>

record date =
  year :: int
  month :: int
  day :: int

definition is_leap :: "int \<Rightarrow> bool" where
  "is_leap y = (y mod 4 = 0 \<and> (y mod 100 \<noteq> 0 \<or> y mod 400 = 0))"

definition days_in_month :: "int \<Rightarrow> int \<Rightarrow> int" where
  "days_in_month y m =
     (if m = 2 then (if is_leap y then 29 else 28)
      else if m = 4 \<or> m = 6 \<or> m = 9 \<or> m = 11 then 30 else 31)"

definition valid_date :: "date \<Rightarrow> bool" where
  "valid_date d =
     (1 \<le> year d \<and> year d \<le> 9999 \<and> 1 \<le> month d \<and> month d \<le> 12 \<and>
      1 \<le> day d \<and> day d \<le> days_in_month (year d) (month d))"

definition mk_date :: "int \<Rightarrow> int \<Rightarrow> int \<Rightarrow> error + date" where
  "mk_date y m d =
     (let r = \<lparr>year = y, month = m, day = d\<rparr>
      in if valid_date r then Inr r else Inl ValueError)"

text \<open>\<open>d.replace(year=y, month=m, day=n)\<close>; an omitted keyword is \<open>None\<close>.\<close>

definition replace :: "date \<Rightarrow> int option \<Rightarrow> int option \<Rightarrow> int option \<Rightarrow> error + date" where
  "replace d y m n =
     mk_date (case y of None \<Rightarrow> year d | Some v \<Rightarrow> v)
             (case m of None \<Rightarrow> month d | Some v \<Rightarrow> v)
             (case n of None \<Rightarrow> day d | Some v \<Rightarrow> v)"

definition days_before_year :: "int \<Rightarrow> int" where
  "days_before_year y = (y - 1) * 365 + (y - 1) div 4 - (y - 1) div 100 + (y - 1) div 400"

fun days_before_month :: "int \<Rightarrow> nat \<Rightarrow> int" where
  "days_before_month y 0 = 0"
| "days_before_month y (Suc k) =
     (if k = 0 then 0 else days_before_month y k + days_in_month y (int k))"

definition toordinal :: "date \<Rightarrow> int" where
  "toordinal d = days_before_year (year d) + days_before_month (year d) (nat (month d)) + day d"

text \<open>\<open>d.weekday()\<close>: Monday is 0, Sunday is 6.\<close>

definition weekday :: "date \<Rightarrow> int" where
  "weekday d = (toordinal d + 6) mod 7"

definition next_day :: "date \<Rightarrow> date" where
  "next_day d =
     (if day d < days_in_month (year d) (month d) then d\<lparr>day := day d + 1\<rparr>
      else if month d < 12 then \<lparr>year = year d, month = month d + 1, day = 1\<rparr>
      else \<lparr>year = year d + 1, month = 1, day = 1\<rparr>)"

definition prev_day :: "date \<Rightarrow> date" where
  "prev_day d =
     (if 1 < day d then d\<lparr>day := day d - 1\<rparr>
      else if 1 < month d
        then \<lparr>year = year d, month = month d - 1, day = days_in_month (year d) (month d - 1)\<rparr>
      else \<lparr>year = year d - 1, month = 12, day = 31\<rparr>)"

text \<open>\<open>d + timedelta(days=k)\<close> and \<open>d - timedelta(days=k)\<close>, one calendar day at a time.\<close>

definition add_days :: "date \<Rightarrow> int \<Rightarrow> error + date" where
  "add_days d k =
     (let r = (if 0 \<le> k then (next_day ^^ nat k) d else (prev_day ^^ nat (- k)) d)
      in if valid_date r then Inr r else Inl OverflowError)"

definition sub_days :: "date \<Rightarrow> int \<Rightarrow> error + date" where
  "sub_days d k = add_days d (- k)"

text \<open>
  \<open>datetime.datetime\<close>: a date with a time of day. Datetimes compare as the tuples
  (year, month, day, hour, minute, second, microsecond). A \<open>date\<close> that is compared
  with a \<open>DateTime\<close> column is bound as the first instant of that day.
\<close>

record datetime = date +
  hour :: int
  minute :: int
  second :: int
  microsecond :: int

definition datetime_key :: "datetime \<Rightarrow> int \<times> int \<times> int \<times> int \<times> int \<times> int \<times> int" where
  "datetime_key t = (year t, month t, day t, hour t, minute t, second t, microsecond t)"

definition datetime_le :: "datetime \<Rightarrow> datetime \<Rightarrow> bool" where
  "datetime_le a b = (datetime_key a \<le> datetime_key b)"

definition at_midnight :: "date \<Rightarrow> datetime" where
  "at_midnight d =
     \<lparr>year = year d, month = month d, day = day d,
      hour = 0, minute = 0, second = 0, microsecond = 0\<rparr>"

section \<open>Report periods (reports.py)\<close>

datatype PeriodType = WEEK | MONTH | QUARTER | YEAR | CUSTOM

text \<open>
  \<open>get_period_dates\<close>, with \<open>date.today()\<close> as the parameter \<open>today\<close>. The branches are
  in the order of the source's \<open>if\<close>/\<open>elif\<close> chain.
\<close>

definition get_period_dates ::
  "date \<Rightarrow> PeriodType \<Rightarrow> date option \<Rightarrow> date option \<Rightarrow> error + (date \<times> date)" where
  "get_period_dates today period start_date end_date =
     (if period = CUSTOM \<and> start_date \<noteq> None \<and> end_date \<noteq> None
        then Inr (the start_date, the end_date)
      else if period = WEEK then
        bind_result (sub_days today (weekday today)) (\<lambda>start.
        bind_result (add_days start 6) (\<lambda>end. Inr (start, end)))
      else if period = MONTH then
        bind_result (replace today None None (Some 1)) (\<lambda>start.
        bind_result
          (if month today = 12
             then bind_result (replace today (Some (year today + 1)) (Some 1) (Some 1))
                    (\<lambda>d. sub_days d 1)
           else bind_result (replace today None (Some (month today + 1)) (Some 1))
                    (\<lambda>d. sub_days d 1))
          (\<lambda>end. Inr (start, end)))
      else if period = QUARTER then
        (let quarter_month = ((month today - 1) div 3) * 3 + 1 in
         bind_result (replace today None (Some quarter_month) (Some 1)) (\<lambda>start.
         bind_result
           (if quarter_month + 2 \<le> 12
              then bind_result (replace today None (Some (quarter_month + 3)) (Some 1))
                     (\<lambda>d. sub_days d 1)
            else bind_result (replace today (Some (year today + 1)) (Some 1) (Some 1))
                     (\<lambda>d. sub_days d 1))
           (\<lambda>end. Inr (start, end))))
      else if period = YEAR then
        bind_result (replace today None (Some 1) (Some 1)) (\<lambda>start.
        bind_result (replace today None (Some 12) (Some 31)) (\<lambda>end. Inr (start, end)))
      else
        bind_result (replace today None None (Some 1)) (\<lambda>start. Inr (start, today)))"

section \<open>Settings and passwords (settings.py, security.py)\<close>

record settings =
  SECRET_KEY :: string
  ALGORITHM :: string
  ACCESS_TOKEN_EXPIRE_MINUTES :: int
  EMAIL_TOKEN_EXPIRE_HOURS :: int

text \<open>
  \<open>str.lower\<close>, \<open>isupper\<close>, \<open>islower\<close> and \<open>isdigit\<close> on the ASCII range; a
  \<open>char\<close> is a byte, and bytes outside A-Z, a-z and 0-9 are left alone.
\<close>

definition isupper :: "char \<Rightarrow> bool" where
  "isupper c = (65 \<le> (of_char c :: nat) \<and> (of_char c :: nat) \<le> 90)"

definition islower :: "char \<Rightarrow> bool" where
  "islower c = (97 \<le> (of_char c :: nat) \<and> (of_char c :: nat) \<le> 122)"

definition isdigit :: "char \<Rightarrow> bool" where
  "isdigit c = (48 \<le> (of_char c :: nat) \<and> (of_char c :: nat) \<le> 57)"

definition lower_char :: "char \<Rightarrow> char" where
  "lower_char c = (if isupper c then char_of ((of_char c :: nat) + 32) else c)"

definition lower :: "string \<Rightarrow> string" where
  "lower s = map lower_char s"

definition validate_password_strength :: "string \<Rightarrow> bool \<times> string" where
  "validate_password_strength password =
     (if length password < 8 then (False, ''Password must be at least 8 characters long'')
      else if \<not> list_ex isupper password
        then (False, ''Password must contain at least one uppercase letter'')
      else if \<not> list_ex islower password
        then (False, ''Password must contain at least one lowercase letter'')
      else if \<not> list_ex isdigit password
        then (False, ''Password must contain at least one number'')
      else (True, ''Password is valid''))"

section \<open>Signed tokens (security.py)\<close>

text \<open>
  The claims of a token are the dictionary the code signs: the keys \<open>sub\<close>, \<open>type\<close>
  and \<open>exp\<close>, each present or absent. Instants are whole seconds since the epoch, as
  the JWT library stores \<open>exp\<close> and reads the clock.

  The signature is symbolic: \<open>Sig alg key claims\<close> is the MAC that algorithm \<open>alg\<close>
  computes under \<open>key\<close> over \<open>claims\<close>, and two signatures are equal only when all
  three agree. A bearer string is either not a JWT at all or a JWT with a header
  algorithm, claims and a signature.
\<close>

record payload =
  p_sub :: "string option"
  p_type :: "string option"
  p_exp :: "int option"

datatype signature = Sig string string payload

datatype token = Malformed string | JWT string payload signature

definition jwt_encode :: "payload \<Rightarrow> string \<Rightarrow> string \<Rightarrow> token" where
  "jwt_encode claims key algorithm = JWT algorithm claims (Sig algorithm key claims)"

text \<open>
  \<open>jwt.decode(token, key, algorithms=[...])\<close> at the instant \<open>now\<close>: every failure
  (not a JWT, algorithm not allowed, signature does not verify, \<open>exp\<close> in the past) is a
  \<open>JWTError\<close>, which the callers catch; \<open>None\<close> stands for the caught error.
\<close>

definition jwt_decode :: "int \<Rightarrow> token \<Rightarrow> string \<Rightarrow> string list \<Rightarrow> payload option" where
  "jwt_decode now t key algorithms =
     (case t of
        Malformed _ \<Rightarrow> None
      | JWT alg claims sg \<Rightarrow>
          if alg \<notin> set algorithms then None
          else if sg \<noteq> Sig alg key claims then None
          else (case p_exp claims of
                  None \<Rightarrow> Some claims
                | Some e \<Rightarrow> if e < now then None else Some claims))"

text \<open>\<open>expires_delta\<close> is in seconds; a zero \<open>timedelta\<close> is falsy.\<close>

definition create_access_token :: "settings \<Rightarrow> int \<Rightarrow> payload \<Rightarrow> int option \<Rightarrow> token" where
  "create_access_token st now data expires_delta =
     (let expire = (case expires_delta of
                      Some delta \<Rightarrow> if delta \<noteq> 0 then now + delta
                                    else now + ACCESS_TOKEN_EXPIRE_MINUTES st * 60
                    | None \<Rightarrow> now + ACCESS_TOKEN_EXPIRE_MINUTES st * 60);
          to_encode = data\<lparr>p_exp := Some expire\<rparr>
      in jwt_encode to_encode (SECRET_KEY st) (ALGORITHM st))"

definition create_email_verification_token :: "settings \<Rightarrow> int \<Rightarrow> string \<Rightarrow> token" where
  "create_email_verification_token st now email =
     (let expire = now + EMAIL_TOKEN_EXPIRE_HOURS st * 3600;
          to_encode = \<lparr>p_sub = Some email, p_type = Some ''email_verification'',
                       p_exp = Some expire\<rparr>
      in jwt_encode to_encode (SECRET_KEY st) (ALGORITHM st))"

definition verify_email_token :: "settings \<Rightarrow> int \<Rightarrow> token \<Rightarrow> string option" where
  "verify_email_token st now t =
     (case jwt_decode now t (SECRET_KEY st) [ALGORITHM st] of
        None \<Rightarrow> None
      | Some claims \<Rightarrow>
          if p_type claims \<noteq> Some ''email_verification'' \<or> p_sub claims = None then None
          else p_sub claims)"

definition create_password_reset_token :: "settings \<Rightarrow> int \<Rightarrow> string \<Rightarrow> token" where
  "create_password_reset_token st now email =
     (let expire = now + EMAIL_TOKEN_EXPIRE_HOURS st * 3600;
          to_encode = \<lparr>p_sub = Some email, p_type = Some ''password_reset'',
                       p_exp = Some expire\<rparr>
      in jwt_encode to_encode (SECRET_KEY st) (ALGORITHM st))"

definition verify_password_reset_token :: "settings \<Rightarrow> int \<Rightarrow> token \<Rightarrow> string option" where
  "verify_password_reset_token st now t =
     (case jwt_decode now t (SECRET_KEY st) [ALGORITHM st] of
        None \<Rightarrow> None
      | Some claims \<Rightarrow>
          if p_type claims \<noteq> Some ''password_reset'' \<or> p_sub claims = None then None
          else p_sub claims)"

definition verify_token :: "settings \<Rightarrow> int \<Rightarrow> token \<Rightarrow> payload option" where
  "verify_token st now t = jwt_decode now t (SECRET_KEY st) [ALGORITHM st]"

section \<open>The stored relations (models.py)\<close>

text \<open>
  The three tables, each a list of rows. Columns that several tables share carry a
  prefix: \<open>u_id\<close>, \<open>c_id\<close>, \<open>e_id\<close> are the primary keys, \<open>c_user_id\<close> and
  \<open>e_user_id\<close> the owners, \<open>c_description\<close> and \<open>e_notes\<close> the free-text columns.
  Amounts are exact rationals; the rounding of \<open>Decimal\<close>
  division and the final conversion to \<open>float\<close> are outside the model. The
  timestamps that the database server fills in and no handler writes (\<open>created_at\<close>
  of a user, \<open>created_at\<close> and \<open>updated_at\<close> of a category, \<open>updated_at\<close> of an
  expense) and the unused \<open>refresh_token\<close> of a user are left out. \<open>expense_date\<close>
  is a \<open>DateTime\<close> column: an expense carries the instant it is dated at.
\<close>

record user =
  u_id :: string
  first_name :: string
  last_name :: string
  email :: string
  hashed_password :: string
  is_active :: bool
  is_verified :: bool
  last_login :: "int option"

record budget_category =
  c_id :: string
  c_user_id :: string
  name :: string
  c_description :: "string option"
  budget_amount :: rat
  color :: "string option"
  icon :: "string option"
  c_is_active :: bool

record expense =
  e_id :: string
  e_user_id :: string
  category_id :: string
  description :: string
  amount :: rat
  expense_date :: datetime
  e_notes :: "string option"
  created_at :: int

record database =
  users :: "user list"
  categories :: "budget_category list"
  expenses :: "expense list"

text \<open>\<open>query.filter(p).first()\<close> is \<open>find p\<close>; a commit of a changed row replaces the row
  with the same primary key.\<close>

definition update_user :: "user \<Rightarrow> user list \<Rightarrow> user list" where
  "update_user u' us = map (\<lambda>u. if u_id u = u_id u' then u' else u) us"

section \<open>Account handlers (auth/views.py)\<close>

text \<open>
  The password primitives of \<open>passlib\<close> are parameters: \<open>hp\<close> is \<open>hash_password\<close> and
  \<open>vp\<close> is \<open>verify_password\<close>. \<open>new_id\<close> is the fresh \<open>uuid4\<close>, \<open>now\<close> the clock. The
  arguments of \<open>register\<close> are the fields of the request after schema validation. The
  insert is refused by the store (\<open>IntegrityError\<close>) when the primary key or the unique
  \<open>email\<close> column is already taken. The result carries the new store, the response
  (message, email) and the verification token handed to the mailer.
\<close>

definition register ::
  "(string \<Rightarrow> string) \<Rightarrow> settings \<Rightarrow> int \<Rightarrow> string \<Rightarrow> database \<Rightarrow>
   string \<Rightarrow> string \<Rightarrow> string \<Rightarrow> string \<Rightarrow> error + (database \<times> (string \<times> string) \<times> token)" where
  "register hp st now new_id db fname lname mail password =
     (case find (\<lambda>u. email u = mail) (users db) of
        Some _ \<Rightarrow> Inl (HTTPException 400 ''Email address is already registered'')
      | None \<Rightarrow>
          (case validate_password_strength password of (is_valid, message) \<Rightarrow>
             if \<not> is_valid then Inl (HTTPException 400 message)
             else
               (let db_user = \<lparr>u_id = new_id, first_name = fname, last_name = lname,
                               email = lower mail, hashed_password = hp password,
                               is_active = True, is_verified = False, last_login = None\<rparr>
                in if list_ex (\<lambda>u. email u = email db_user \<or> u_id u = u_id db_user) (users db)
                     then Inl IntegrityError
                   else
                     Inr (db\<lparr>users := users db @ [db_user]\<rparr>,
                          (''Registration successful! Please check your email to verify your account.'',
                           email db_user),
                          create_email_verification_token st now (email db_user)))))"

definition login ::
  "(string \<Rightarrow> string \<Rightarrow> bool) \<Rightarrow> settings \<Rightarrow> int \<Rightarrow> database \<Rightarrow> string \<Rightarrow> string \<Rightarrow>
   error + (database \<times> token \<times> user)" where
  "login vp st now db mail password =
     (case find (\<lambda>u. email u = lower mail) (users db) of
        None \<Rightarrow> Inl (HTTPException 401 ''Incorrect email or password'')
      | Some u \<Rightarrow>
          if \<not> vp password (hashed_password u)
            then Inl (HTTPException 401 ''Incorrect email or password'')
          else if \<not> is_active u
            then Inl (HTTPException 400 ''Account has been deactivated. Please contact support.'')
          else if \<not> is_verified u
            then Inl (HTTPException 400 ''Please verify your email address before logging in.'')
          else
            (let access_token_expires = ACCESS_TOKEN_EXPIRE_MINUTES st * 60;
                 access_token = create_access_token st now
                   \<lparr>p_sub = Some (email u), p_type = None, p_exp = None\<rparr>
                   (Some access_token_expires);
                 u' = u\<lparr>last_login := Some now\<rparr>
             in Inr (db\<lparr>users := update_user u' (users db)\<rparr>, access_token, u')))"

text \<open>\<open>if not email\<close> refuses \<open>None\<close> and the empty string alike.\<close>

definition verify_email :: "settings \<Rightarrow> int \<Rightarrow> database \<Rightarrow> token \<Rightarrow> error + (database \<times> string)" where
  "verify_email st now db t =
     (case verify_email_token st now t of
        None \<Rightarrow> Inl (HTTPException 400 ''Invalid or expired verification token'')
      | Some mail \<Rightarrow>
          if mail = [] then Inl (HTTPException 400 ''Invalid or expired verification token'')
          else
            (case find (\<lambda>u. email u = mail) (users db) of
               None \<Rightarrow> Inl (HTTPException 404 ''User not found'')
             | Some u \<Rightarrow>
                 if is_verified u then Inr (db, ''Email address is already verified'')
                 else Inr (db\<lparr>users := update_user (u\<lparr>is_verified := True\<rparr>) (users db)\<rparr>,
                           ''Email address verified successfully! You can now log in.'')))"

section \<open>Deleting a category (budget/categories.py)\<close>

text \<open>The decimal digits of a count, as an f-string prints it.\<close>

fun str_nat :: "nat \<Rightarrow> string" where
  "str_nat n =
     (if n < 10 then [char_of (48 + n)] else str_nat (n div 10) @ [char_of (48 + n mod 10)])"

declare str_nat.simps [simp del]

text \<open>
  \<open>delete_budget_category\<close> for the caller \<open>uid\<close>. With \<open>force\<close> the handler deletes the
  caller's expenses of the category, then the category row, and the relationship's
  delete cascade removes whatever expense still points at it.
\<close>

definition delete_budget_category ::
  "database \<Rightarrow> string \<Rightarrow> string \<Rightarrow> bool \<Rightarrow> error + (database \<times> string)" where
  "delete_budget_category db uid cid force =
     (case find (\<lambda>c. c_id c = cid \<and> c_user_id c = uid) (categories db) of
        None \<Rightarrow> Inl (HTTPException 404 ''Budget category not found'')
      | Some category \<Rightarrow>
          (let expense_count =
                 length (filter (\<lambda>e. category_id e = cid \<and> e_user_id e = uid) (expenses db))
           in if expense_count > 0 \<and> \<not> force then
                Inl (HTTPException 400
                  (''Cannot delete category with '' @ str_nat expense_count @
                   '' associated expenses. Use force=true to override.''))
              else if force then
                (let remaining = filter (\<lambda>e. \<not> (category_id e = cid \<and> e_user_id e = uid))
                                   (expenses db)
                 in Inr (db\<lparr>categories := filter (\<lambda>c. c_id c \<noteq> c_id category) (categories db),
                            expenses := filter (\<lambda>e. category_id e \<noteq> c_id category) remaining\<rparr>,
                         ''Budget category deleted successfully''))
              else
                Inr (db\<lparr>categories :=
                          map (\<lambda>c. if c_id c = c_id category then c\<lparr>c_is_active := False\<rparr> else c)
                            (categories db)\<rparr>,
                     ''Budget category deactivated successfully'')))"

section \<open>Derived figures (budget/categories.py, budget/reports.py)\<close>

text \<open>
  Division raises on a zero divisor. The loops that build the response lists are
  \<open>map_result\<close>: the first raise ends the loop.
\<close>

definition py_div :: "rat \<Rightarrow> rat \<Rightarrow> error + rat" where
  "py_div a b = (if b = 0 then Inl ZeroDivisionError else Inr (a / b))"

fun map_result :: "('a \<Rightarrow> error + 'b) \<Rightarrow> 'a list \<Rightarrow> error + 'b list" where
  "map_result f [] = Inr []"
| "map_result f (x # xs) =
     bind_result (f x) (\<lambda>y. bind_result (map_result f xs) (\<lambda>ys. Inr (y # ys)))"

text \<open>
  The range filter of the report queries, \<open>expense_date >= period_start\<close> and
  \<open>expense_date <= period_end\<close>: the column is a datetime and each bound is a date, taken
  at 00:00:00.
\<close>

definition in_period :: "date \<Rightarrow> date \<Rightarrow> expense \<Rightarrow> bool" where
  "in_period period_start period_end e =
     (datetime_le (at_midnight period_start) (expense_date e) \<and>
      datetime_le (expense_date e) (at_midnight period_end))"

text \<open>
  A response model is built from keyword arguments, and the constructor raises
  \<open>ValidationError\<close> when a field that the schema requires is not among them (keywords
  the schema does not know are ignored). The other response models of the reports are
  called with exactly their fields; \<open>BudgetSummary\<close> (budget/schemas.py) is not.
\<close>

definition validate_model :: "string list \<Rightarrow> string list \<Rightarrow> 'a \<Rightarrow> error + 'a" where
  "validate_model required supplied v =
     (if list_all (\<lambda>f. f \<in> set supplied) required then Inr v else Inl ValidationError)"

definition BudgetSummary_required :: "string list" where
  "BudgetSummary_required =
     [''total_budget'', ''total_expenses'', ''remaining_budget'', ''categories_count'',
      ''expenses_count'']"

text \<open>The values that \<open>get_budget_summary\<close> passes to \<open>BudgetSummary(...)\<close>, one field per
  keyword.\<close>

record BudgetSummaryArguments =
  bs_total_budget :: rat
  bs_total_spent :: rat
  bs_total_remaining :: rat
  bs_budget_utilization :: rat
  bs_category_count :: nat
  bs_categories :: "(string \<times> string \<times> rat \<times> rat \<times> rat \<times> rat) list"

text \<open>
  \<open>budget_summary_arguments\<close> is the body of \<open>get_budget_summary\<close> up to the call of the
  response model: one row (id, name, budget, spent) per active category of the caller
  (the grouping key is the primary key), the totals, the utilization, and the entries of
  \<open>categories\<close> as (id, name, budget, spent, remaining, utilization).
  \<open>get_budget_summary\<close> then builds the response from these keywords.
\<close>

definition budget_summary_arguments :: "database \<Rightarrow> string \<Rightarrow> error + BudgetSummaryArguments" where
  "budget_summary_arguments db uid =
     (let categories_with_spending =
            map (\<lambda>c. (c_id c, name c, budget_amount c,
                       sum_list (map amount
                         (filter (\<lambda>e. category_id e = c_id c \<and> e_user_id e = uid) (expenses db)))))
              (filter (\<lambda>c. c_user_id c = uid \<and> c_is_active c) (categories db));
          total_budget = sum_list (map (\<lambda>(i, n, b, s). b) categories_with_spending);
          total_spent = sum_list (map (\<lambda>(i, n, b, s). s) categories_with_spending);
          total_remaining = total_budget - total_spent
      in bind_result
           (if total_budget > 0
              then bind_result (py_div total_spent total_budget) (\<lambda>q. Inr (q * 100))
            else Inr 0) (\<lambda>budget_utilization.
         bind_result
           (map_result (\<lambda>(i, n, b, s).
              bind_result
                (if b > 0 then bind_result (py_div s b) (\<lambda>q. Inr (q * 100)) else Inr 0)
                (\<lambda>utilization. Inr (i, n, b, s, b - s, utilization)))
              categories_with_spending) (\<lambda>category_summaries.
         Inr \<lparr>bs_total_budget = total_budget, bs_total_spent = total_spent,
              bs_total_remaining = total_remaining,
              bs_budget_utilization = budget_utilization,
              bs_category_count = length categories_with_spending,
              bs_categories = category_summaries\<rparr>)))"

definition get_budget_summary :: "database \<Rightarrow> string \<Rightarrow> error + BudgetSummaryArguments" where
  "get_budget_summary db uid =
     bind_result (budget_summary_arguments db uid)
       (validate_model BudgetSummary_required
          [''total_budget'', ''total_spent'', ''total_remaining'', ''budget_utilization'',
           ''category_count'', ''categories''])"

record FinancialSummaryData =
  fs_total_spent :: rat
  fs_average_monthly :: rat
  fs_budget_utilization :: rat
  fs_savings_rate :: rat
  fs_period_start :: date
  fs_period_end :: date

definition get_financial_summary ::
  "date \<Rightarrow> database \<Rightarrow> string \<Rightarrow> PeriodType \<Rightarrow> date option \<Rightarrow> date option \<Rightarrow>
   error + FinancialSummaryData" where
  "get_financial_summary today db uid period start_date end_date =
     bind_result (get_period_dates today period start_date end_date)
       (\<lambda>(period_start, period_end).
          let total_spent = sum_list (map amount
                (filter (\<lambda>e. e_user_id e = uid \<and> in_period period_start period_end e)
                   (expenses db)));
              total_budget = sum_list (map budget_amount
                (filter (\<lambda>c. c_user_id c = uid \<and> c_is_active c) (categories db)))
          in bind_result
               (if total_budget > 0
                  then bind_result (py_div total_spent total_budget) (\<lambda>q. Inr (q * 100))
                else Inr 0) (\<lambda>budget_utilization.
             bind_result
               (if total_budget > 0
                  then bind_result (py_div (total_budget - total_spent) total_budget)
                         (\<lambda>q. Inr (q * 100))
                else Inr 0) (\<lambda>savings_rate.
             let days_in_period = toordinal period_end - toordinal period_start + 1
             in bind_result
                  (if days_in_period > 0
                     then bind_result (py_div total_spent (of_int days_in_period))
                            (\<lambda>q. Inr (q * 30))
                   else Inr total_spent) (\<lambda>average_monthly.
                Inr \<lparr>fs_total_spent = total_spent, fs_average_monthly = average_monthly,
                     fs_budget_utilization = budget_utilization,
                     fs_savings_rate = savings_rate,
                     fs_period_start = period_start, fs_period_end = period_end\<rparr>))))"

text \<open>
  The grouped outer join of \<open>get_category_breakdown\<close> and \<open>get_financial_insights\<close>:
  one row (name, budget, spent) per active category of the caller, where spent sums
  the expenses of that category dated in the range (an empty sum is 0).
\<close>

definition category_spending ::
  "database \<Rightarrow> string \<Rightarrow> date \<Rightarrow> date \<Rightarrow> (string \<times> rat \<times> rat) list" where
  "category_spending db uid period_start period_end =
     map (\<lambda>c. (name c, budget_amount c,
                sum_list (map amount
                  (filter (\<lambda>e. category_id e = c_id c \<and> in_period period_start period_end e)
                     (expenses db)))))
       (filter (\<lambda>c. c_user_id c = uid \<and> c_is_active c) (categories db))"

record CategoryBreakdownData =
  cb_category_name :: string
  cb_spent :: rat
  cb_budget :: rat
  cb_percentage :: rat
  cb_utilization :: rat

definition get_category_breakdown ::
  "date \<Rightarrow> database \<Rightarrow> string \<Rightarrow> PeriodType \<Rightarrow> date option \<Rightarrow> date option \<Rightarrow>
   error + CategoryBreakdownData list" where
  "get_category_breakdown today db uid period start_date end_date =
     bind_result (get_period_dates today period start_date end_date)
       (\<lambda>(period_start, period_end).
          let rows = category_spending db uid period_start period_end;
              total_spent = sum_list (map (\<lambda>(n, b, s). s) rows)
          in map_result (\<lambda>(n, b, s).
               bind_result
                 (if total_spent > 0
                    then bind_result (py_div s total_spent) (\<lambda>q. Inr (q * 100))
                  else Inr 0) (\<lambda>percentage.
               bind_result
                 (if b > 0 then bind_result (py_div s b) (\<lambda>q. Inr (q * 100)) else Inr 0)
                 (\<lambda>utilization.
               Inr \<lparr>cb_category_name = n, cb_spent = s, cb_budget = b,
                    cb_percentage = percentage, cb_utilization = utilization\<rparr>)))
               rows)"

datatype AlertType = WARNING | DANGER | INFO

text \<open>An insight: its type, its title, the utilization its message prints (if any),
  its amount and its category.\<close>

record InsightData =
  i_type :: AlertType
  i_title :: string
  i_message_utilization :: "rat option"
  i_amount :: "rat option"
  i_category :: "string option"

definition get_financial_insights :: "date \<Rightarrow> database \<Rightarrow> string \<Rightarrow> error + InsightData list" where
  "get_financial_insights today db uid =
     bind_result (replace today None None (Some 1)) (\<lambda>current_month_start.
       let rows = category_spending db uid current_month_start today
       in bind_result
            (map_result (\<lambda>(n, b, s).
               bind_result
                 (if b > 0 then bind_result (py_div s b) (\<lambda>q. Inr (q * 100)) else Inr 0)
                 (\<lambda>utilization.
                    Inr (if utilization \<ge> 90 then
                           [\<lparr>i_type = DANGER, i_title = ''Budget Nearly Exceeded'',
                             i_message_utilization = Some utilization,
                             i_amount = Some s, i_category = Some n\<rparr>]
                         else if utilization \<ge> 75 then
                           [\<lparr>i_type = WARNING, i_title = ''High Budget Usage'',
                             i_message_utilization = Some utilization,
                             i_amount = Some s, i_category = Some n\<rparr>]
                         else [])))
               rows) (\<lambda>alerts.
          let no_spending_categories = filter (\<lambda>(n, b, s). s = 0) rows;
              infos = (if no_spending_categories \<noteq> [] \<and> length no_spending_categories \<le> 3
                         then map (\<lambda>(n, b, s).
                                \<lparr>i_type = INFO, i_title = ''Unused Budget'',
                                 i_message_utilization = None,
                                 i_amount = None, i_category = Some n\<rparr>)
                              (take 3 no_spending_categories)
                       else [])
          in Inr (concat alerts @ infos)))"

section \<open>Export (budget/reports.py)\<close>

datatype ExportFormat = CSV | PDF | EXCEL

text \<open>
  A CSV cell keeps the value the writer is given. The query joins each expense with the
  category rows that have its \<open>category_id\<close> and orders by expense date, latest first.
  The result is the list of rows written and the period in the attachment's name.
\<close>

datatype cell = Text string | DateTimeCell datetime | Number rat | Instant int

definition export_report_data ::
  "date \<Rightarrow> database \<Rightarrow> string \<Rightarrow> ExportFormat \<Rightarrow> PeriodType \<Rightarrow> date option \<Rightarrow> date option \<Rightarrow>
   error + (cell list list \<times> date \<times> date)" where
  "export_report_data today db uid format period start_date end_date =
     (if format \<noteq> CSV then Inl (HTTPException 400 ''Only CSV export is currently supported'')
      else
        bind_result (get_period_dates today period start_date end_date)
          (\<lambda>(period_start, period_end).
             let joined = concat (map (\<lambda>e. map (\<lambda>c. (e, name c))
                                          (filter (\<lambda>c. category_id e = c_id c) (categories db)))
                            (filter (\<lambda>e. e_user_id e = uid \<and> in_period period_start period_end e)
                               (expenses db)));
                 ordered = rev (sort_key (\<lambda>(e, category_name). datetime_key (expense_date e)) joined);
                 header = [Text ''Date'', Text ''Amount'', Text ''Description'',
                           Text ''Category'', Text ''Created At''];
                 data = map (\<lambda>(e, category_name).
                           [DateTimeCell (expense_date e), Number (amount e), Text (description e),
                            Text category_name, Instant (created_at e)]) ordered
             in Inr (header # data, period_start, period_end)))"

section \<open>Vocabulary of the specification\<close>

text \<open>
  A token's signature verifies under the settings when the token is the JWT that the
  configured algorithm signs with the configured key over its own claims; it has not
  expired at \<open>now\<close> when it has no \<open>exp\<close> or \<open>exp\<close> is not in the past.
\<close>

definition signed_by :: "settings \<Rightarrow> token \<Rightarrow> payload \<Rightarrow> bool" where
  "signed_by st t claims =
     (t = JWT (ALGORITHM st) claims (Sig (ALGORITHM st) (SECRET_KEY st) claims))"

definition unexpired :: "int \<Rightarrow> payload \<Rightarrow> bool" where
  "unexpired now claims = (case p_exp claims of None \<Rightarrow> True | Some e \<Rightarrow> now \<le> e)"

section \<open>Example data\<close>

definition example_settings :: settings where
  "example_settings = \<lparr>SECRET_KEY = ''secret'', ALGORITHM = ''HS256'',
     ACCESS_TOKEN_EXPIRE_MINUTES = 15, EMAIL_TOKEN_EXPIRE_HOURS = 24\<rparr>"

text \<open>Bob is active and unverified, Carol inactive and verified, Dan active and verified.
  The example password check compares the stored string with the password.\<close>

definition example_users :: "user list" where
  "example_users =
     [\<lparr>u_id = ''u1'', first_name = ''Bob'', last_name = ''Stone'', email = ''bob@example.com'',
       hashed_password = ''Passw0rd1'', is_active = True, is_verified = False,
       last_login = None\<rparr>,
      \<lparr>u_id = ''u2'', first_name = ''Carol'', last_name = ''Reed'', email = ''carol@example.com'',
       hashed_password = ''Passw0rd2'', is_active = False, is_verified = True,
       last_login = None\<rparr>,
      \<lparr>u_id = ''u3'', first_name = ''Dan'', last_name = ''Hill'', email = ''dan@example.com'',
       hashed_password = ''Passw0rd3'', is_active = True, is_verified = True,
       last_login = None\<rparr>]"

text \<open>Reading a decimal numeral back, to say that an error message carries a count.\<close>

definition nat_of_str :: "string \<Rightarrow> nat" where
  "nat_of_str s = foldl (\<lambda>a c. 10 * a + (of_char c - 48)) 0 s"

text \<open>
  Dan's budget: Food (100.00, with expenses 30.00 and 45.50), Travel (soft-deleted, with
  one expense of 20.00) and Books (no expense).
\<close>

definition example_db :: database where
  "example_db =
     \<lparr>users = example_users,
      categories =
        [\<lparr>c_id = ''c1'', c_user_id = ''u3'', name = ''Food'',
          c_description = None, budget_amount = 100, color = Some ''#FF5733'',
          icon = None, c_is_active = True\<rparr>,
         \<lparr>c_id = ''c2'', c_user_id = ''u3'', name = ''Travel'',
          c_description = None, budget_amount = 200, color = Some ''#FF5733'',
          icon = None, c_is_active = False\<rparr>,
         \<lparr>c_id = ''c3'', c_user_id = ''u3'', name = ''Books'',
          c_description = None, budget_amount = 50, color = Some ''#FF5733'',
          icon = None, c_is_active = True\<rparr>],
      expenses =
        [\<lparr>e_id = ''e1'', e_user_id = ''u3'', category_id = ''c1'', description = ''Lunch'',
          amount = 30, expense_date = \<lparr>year = 2024, month = 3, day = 10, hour = 0, minute = 0,
            second = 0, microsecond = 0\<rparr>,
          e_notes = None, created_at = 1\<rparr>,
         \<lparr>e_id = ''e2'', e_user_id = ''u3'', category_id = ''c1'', description = ''Dinner'',
          amount = 91 / 2, expense_date = \<lparr>year = 2024, month = 3, day = 12, hour = 0, minute = 0,
            second = 0, microsecond = 0\<rparr>,
          e_notes = None, created_at = 2\<rparr>,
         \<lparr>e_id = ''e3'', e_user_id = ''u3'', category_id = ''c2'', description = ''Train'',
          amount = 20, expense_date = \<lparr>year = 2024, month = 3, day = 11, hour = 0, minute = 0,
            second = 0, microsecond = 0\<rparr>,
          e_notes = None, created_at = 3\<rparr>]\<rparr>"




section \<open>Period resolution\<close>

lemma valid_date_simp:
  "valid_date \<lparr>year = y, month = m, day = d\<rparr> =
     (1 \<le> y \<and> y \<le> 9999 \<and> 1 \<le> m \<and> m \<le> 12 \<and> 1 \<le> d \<and> d \<le> days_in_month y m)"
  by (simp add: valid_date_def)

text \<open>
  C2. On 2024-12-20 the quarter period does not resolve to [2024-10-01, 2024-12-31]:
  the quarter starts in month 10, the test \<open>quarter_month + 2 <= 12\<close> holds, and
  \<open>today.replace(month=13, day=1)\<close> raises \<open>ValueError\<close>.
\<close>

theorem quarter_december_raises:
  "get_period_dates \<lparr>year = 2024, month = 12, day = 20\<rparr> QUARTER None None = Inl ValueError"
  by (simp add: get_period_dates_def bind_result_def replace_def mk_date_def
      valid_date_simp days_in_month_def)

section \<open>Token service\<close>

lemma jwt_decode_Some:
  "jwt_decode now t (SECRET_KEY st) [ALGORITHM st] = Some c \<longleftrightarrow> signed_by st t c \<and> unexpired now c"
  by (cases t) (auto simp: jwt_decode_def signed_by_def unexpired_def split: option.splits)

lemma verify_email_token_Some:
  "verify_email_token st now t = Some s \<longleftrightarrow>
     (\<exists>c. signed_by st t c \<and> unexpired now c \<and> p_type c = Some ''email_verification'' \<and> p_sub c = Some s)"
proof
  assume "verify_email_token st now t = Some s"
  then obtain c where "jwt_decode now t (SECRET_KEY st) [ALGORITHM st] = Some c"
    "p_type c = Some ''email_verification''" "p_sub c = Some s"
    by (auto simp: verify_email_token_def split: option.splits if_splits)
  then show "\<exists>c. signed_by st t c \<and> unexpired now c \<and>
      p_type c = Some ''email_verification'' \<and> p_sub c = Some s"
    using jwt_decode_Some by blast
next
  assume "\<exists>c. signed_by st t c \<and> unexpired now c \<and>
      p_type c = Some ''email_verification'' \<and> p_sub c = Some s"
  then obtain c where c: "signed_by st t c" "unexpired now c"
    "p_type c = Some ''email_verification''" "p_sub c = Some s" by blast
  then have "jwt_decode now t (SECRET_KEY st) [ALGORITHM st] = Some c"
    by (simp add: jwt_decode_Some)
  with c show "verify_email_token st now t = Some s"
    by (simp add: verify_email_token_def)
qed

lemma verify_password_reset_token_Some:
  "verify_password_reset_token st now t = Some s \<longleftrightarrow>
     (\<exists>c. signed_by st t c \<and> unexpired now c \<and> p_type c = Some ''password_reset'' \<and> p_sub c = Some s)"
proof
  assume "verify_password_reset_token st now t = Some s"
  then obtain c where "jwt_decode now t (SECRET_KEY st) [ALGORITHM st] = Some c"
    "p_type c = Some ''password_reset''" "p_sub c = Some s"
    by (auto simp: verify_password_reset_token_def split: option.splits if_splits)
  then show "\<exists>c. signed_by st t c \<and> unexpired now c \<and>
      p_type c = Some ''password_reset'' \<and> p_sub c = Some s"
    using jwt_decode_Some by blast
next
  assume "\<exists>c. signed_by st t c \<and> unexpired now c \<and>
      p_type c = Some ''password_reset'' \<and> p_sub c = Some s"
  then obtain c where c: "signed_by st t c" "unexpired now c"
    "p_type c = Some ''password_reset''" "p_sub c = Some s" by blast
  then have "jwt_decode now t (SECRET_KEY st) [ALGORITHM st] = Some c"
    by (simp add: jwt_decode_Some)
  with c show "verify_password_reset_token st now t = Some s"
    by (simp add: verify_password_reset_token_def)
qed

lemma signed_by_unique: "signed_by st t c \<Longrightarrow> signed_by st t c' \<Longrightarrow> c = c'"
  by (simp add: signed_by_def)

text \<open>
  C1, as the code has it. The email-verification and password-reset consumers accept a
  token exactly when its signature verifies, it has not expired, its type tag is the
  consumer's own and it carries a subject. No token is accepted by both, and an untyped
  (session) token is accepted by neither. The session decoder \<open>verify_token\<close> has no
  expected type: it accepts exactly the tokens whose signature verifies and that have
  not expired, whatever their type tag.
\<close>

theorem typed_consumers_check_type:
  "(verify_email_token st now t = Some s \<longleftrightarrow>
      (\<exists>c. signed_by st t c \<and> unexpired now c \<and>
           p_type c = Some ''email_verification'' \<and> p_sub c = Some s)) \<and>
   (verify_password_reset_token st now t = Some s \<longleftrightarrow>
      (\<exists>c. signed_by st t c \<and> unexpired now c \<and>
           p_type c = Some ''password_reset'' \<and> p_sub c = Some s)) \<and>
   (verify_token st now t = Some c \<longleftrightarrow> signed_by st t c \<and> unexpired now c) \<and>
   (verify_email_token st now t = None \<or> verify_password_reset_token st now t = None) \<and>
   (verify_token st now t = Some c \<and> p_type c = None \<longrightarrow>
      verify_email_token st now t = None \<and> verify_password_reset_token st now t = None)"
proof -
  have both: "verify_email_token st now t = None \<or> verify_password_reset_token st now t = None"
  proof (rule ccontr)
    assume "\<not> ?thesis"
    then obtain a b where "verify_email_token st now t = Some a"
      "verify_password_reset_token st now t = Some b" by auto
    then obtain c c' where "signed_by st t c" "p_type c = Some ''email_verification''"
      "signed_by st t c'" "p_type c' = Some ''password_reset''"
      unfolding verify_email_token_Some verify_password_reset_token_Some by blast
    then show False using signed_by_unique[of st t c c'] by auto
  qed
  have sess: "verify_token st now t = Some c \<longleftrightarrow> signed_by st t c \<and> unexpired now c"
    by (simp add: verify_token_def jwt_decode_Some)
  have untyped: "verify_token st now t = Some c \<and> p_type c = None \<longrightarrow>
      verify_email_token st now t = None \<and> verify_password_reset_token st now t = None"
    by (auto simp: verify_token_def verify_email_token_def verify_password_reset_token_def)
  show ?thesis
    using both sess untyped verify_email_token_Some verify_password_reset_token_Some by blast
qed

theorem typed_consumers_check_type_witness:
  "verify_password_reset_token example_settings 100
     (create_password_reset_token example_settings 0 ''a@b.c'') = Some ''a@b.c'' \<and>
   verify_email_token example_settings 100
     (create_password_reset_token example_settings 0 ''a@b.c'') = None"
  using typed_consumers_check_type [of example_settings 100
      "create_password_reset_token example_settings 0 ''a@b.c''" "''a@b.c''"
      "\<lparr>p_sub = Some ''a@b.c'', p_type = Some ''password_reset'', p_exp = Some 86400\<rparr>"]
  by (auto simp: example_settings_def create_password_reset_token_def jwt_encode_def
      signed_by_def unexpired_def Let_def)

text \<open>
  C1 as stated fails for session access: an email-verification token, correctly signed
  and not expired, is accepted by the session decoder.
\<close>

theorem session_accepts_verification_token:
  "verify_token \<lparr>SECRET_KEY = ''k'', ALGORITHM = ''HS256'', ACCESS_TOKEN_EXPIRE_MINUTES = 15,
       EMAIL_TOKEN_EXPIRE_HOURS = 24\<rparr> 100
     (create_email_verification_token \<lparr>SECRET_KEY = ''k'', ALGORITHM = ''HS256'',
        ACCESS_TOKEN_EXPIRE_MINUTES = 15, EMAIL_TOKEN_EXPIRE_HOURS = 24\<rparr> 0 ''a@b.c'')
   = Some \<lparr>p_sub = Some ''a@b.c'', p_type = Some ''email_verification'', p_exp = Some 86400\<rparr>"
  by (simp add: verify_token_def create_email_verification_token_def jwt_encode_def jwt_decode_def Let_def)

text \<open>
  C4. A token issued at \<open>now\<close> for the subject \<open>s\<close> verifies to \<open>s\<close> with the matching
  consumer at every instant up to its expiry and is invalid after it; this holds for
  email-verification tokens, password-reset tokens and (with a non-zero ttl) session
  tokens, whose decoder returns the claims with the subject.
\<close>

theorem token_round_trip:
  "verify_email_token st now' (create_email_verification_token st now s) =
     (if now' \<le> now + EMAIL_TOKEN_EXPIRE_HOURS st * 3600 then Some s else None) \<and>
   verify_password_reset_token st now' (create_password_reset_token st now s) =
     (if now' \<le> now + EMAIL_TOKEN_EXPIRE_HOURS st * 3600 then Some s else None) \<and>
   (ttl \<noteq> 0 \<longrightarrow>
    verify_token st now' (create_access_token st now \<lparr>p_sub = Some s, p_type = None, p_exp = None\<rparr> (Some ttl)) =
     (if now' \<le> now + ttl then Some \<lparr>p_sub = Some s, p_type = None, p_exp = Some (now + ttl)\<rparr> else None))"
  by (auto simp: verify_email_token_def create_email_verification_token_def
      verify_password_reset_token_def create_password_reset_token_def
      verify_token_def create_access_token_def jwt_encode_def jwt_decode_def Let_def)


theorem token_round_trip_witness:
  "verify_email_token example_settings 100
     (create_email_verification_token example_settings 0 ''a@b.c'') = Some ''a@b.c'' \<and>
   verify_email_token example_settings 86401
     (create_email_verification_token example_settings 0 ''a@b.c'') = None \<and>
   verify_token example_settings 100
     (create_access_token example_settings 0
        \<lparr>p_sub = Some ''a@b.c'', p_type = None, p_exp = None\<rparr> (Some 900)) =
     Some \<lparr>p_sub = Some ''a@b.c'', p_type = None, p_exp = Some 900\<rparr> \<and>
   verify_token example_settings 901
     (create_access_token example_settings 0
        \<lparr>p_sub = Some ''a@b.c'', p_type = None, p_exp = None\<rparr> (Some 900)) = None"
  using token_round_trip [of example_settings 100 0 "''a@b.c''" 900]
    token_round_trip [of example_settings 86401 0 "''a@b.c''" 900]
    token_round_trip [of example_settings 901 0 "''a@b.c''" 900]
  by (simp add: example_settings_def)

section \<open>Login\<close>

lemma find_update_user:
  "find (\<lambda>u. email u = m) us = Some u \<Longrightarrow> email u' = m \<Longrightarrow> u_id u' = u_id u \<Longrightarrow>
   find (\<lambda>u. email u = m) (update_user u' us) = Some u'"
  by (induction us) (auto simp: update_user_def)

lemma find_Some_email: "find (\<lambda>u. email u = m) us = Some u \<Longrightarrow> email u = m"
  by (induction us) (auto split: if_splits)

lemma lower_bob: "lower ''Bob@Example.com'' = ''bob@example.com''"
  by code_simp

lemma lower_carol: "lower ''carol@example.com'' = ''carol@example.com''"
  by code_simp

text \<open>
  C5. Login fails with the same 401 error when no user has the (lowercased) email and
  when the password does not verify; otherwise with "deactivated" when the user is not
  active; otherwise with "verify your email" when the user is not verified; otherwise it
  returns the session token for the user's email and the profile with the last-login
  instant set, and the stored user carries that instant. It succeeds only when all three
  checks pass.
\<close>

theorem login_gating:
  "(find (\<lambda>u. email u = lower mail) (users db) = None \<longrightarrow>
      login vp st now db mail pw = Inl (HTTPException 401 ''Incorrect email or password'')) \<and>
   (\<forall>u. find (\<lambda>u. email u = lower mail) (users db) = Some u \<longrightarrow>
      (\<not> vp pw (hashed_password u) \<longrightarrow>
         login vp st now db mail pw = Inl (HTTPException 401 ''Incorrect email or password'')) \<and>
      (vp pw (hashed_password u) \<and> \<not> is_active u \<longrightarrow>
         login vp st now db mail pw =
           Inl (HTTPException 400 ''Account has been deactivated. Please contact support.'')) \<and>
      (vp pw (hashed_password u) \<and> is_active u \<and> \<not> is_verified u \<longrightarrow>
         login vp st now db mail pw =
           Inl (HTTPException 400 ''Please verify your email address before logging in.'')) \<and>
      (vp pw (hashed_password u) \<and> is_active u \<and> is_verified u \<longrightarrow>
         (\<exists>db'. login vp st now db mail pw =
                  Inr (db',
                       create_access_token st now
                         \<lparr>p_sub = Some (email u), p_type = None, p_exp = None\<rparr>
                         (Some (ACCESS_TOKEN_EXPIRE_MINUTES st * 60)),
                       u\<lparr>last_login := Some now\<rparr>) \<and>
                find (\<lambda>u. email u = lower mail) (users db') = Some (u\<lparr>last_login := Some now\<rparr>) \<and>
                categories db' = categories db \<and> expenses db' = expenses db))) \<and>
   (\<forall>r. login vp st now db mail pw = Inr r \<longrightarrow>
      (\<exists>u. find (\<lambda>u. email u = lower mail) (users db) = Some u \<and>
           vp pw (hashed_password u) \<and> is_active u \<and> is_verified u))"
proof (intro conjI allI impI)
  fix u
  assume f: "find (\<lambda>u. email u = lower mail) (users db) = Some u"
    and ok: "vp pw (hashed_password u) \<and> is_active u \<and> is_verified u"
  let ?u' = "u\<lparr>last_login := Some now\<rparr>"
  let ?db' = "db\<lparr>users := update_user ?u' (users db)\<rparr>"
  have "email u = lower mail" using f by (rule find_Some_email)
  then have "find (\<lambda>u. email u = lower mail) (users ?db') = Some ?u'"
    using find_update_user[OF f, of ?u'] by simp
  moreover have "login vp st now db mail pw =
      Inr (?db', create_access_token st now
             \<lparr>p_sub = Some (email u), p_type = None, p_exp = None\<rparr>
             (Some (ACCESS_TOKEN_EXPIRE_MINUTES st * 60)), ?u')"
    using f ok by (simp add: login_def Let_def)
  ultimately show "\<exists>db'. login vp st now db mail pw =
                  Inr (db',
                       create_access_token st now
                         \<lparr>p_sub = Some (email u), p_type = None, p_exp = None\<rparr>
                         (Some (ACCESS_TOKEN_EXPIRE_MINUTES st * 60)),
                       u\<lparr>last_login := Some now\<rparr>) \<and>
                find (\<lambda>u. email u = lower mail) (users db') = Some (u\<lparr>last_login := Some now\<rparr>) \<and>
                categories db' = categories db \<and> expenses db' = expenses db"
    by (intro exI[of _ ?db']) simp
qed (auto simp: login_def Let_def split: option.splits if_splits)

theorem login_gating_witness:
  "login (\<lambda>p h. h = p) example_settings 1000
     \<lparr>users = example_users, categories = [], expenses = []\<rparr> ''Bob@Example.com'' ''Passw0rd1''
     = Inl (HTTPException 400 ''Please verify your email address before logging in.'') \<and>
   login (\<lambda>p h. h = p) example_settings 1000
     \<lparr>users = example_users, categories = [], expenses = []\<rparr> ''carol@example.com'' ''Passw0rd2''
     = Inl (HTTPException 400 ''Account has been deactivated. Please contact support.'')"
  using login_gating [of "''Bob@Example.com''"
      "\<lparr>users = example_users, categories = [], expenses = []\<rparr>" "\<lambda>p h. h = p"
      example_settings 1000 "''Passw0rd1''"]
    login_gating [of "''carol@example.com''"
      "\<lparr>users = example_users, categories = [], expenses = []\<rparr>" "\<lambda>p h. h = p"
      example_settings 1000 "''Passw0rd2''"]
  by (simp add: lower_bob lower_carol example_users_def)


section \<open>Registration\<close>

text \<open>
  An email that is stored exactly as typed is refused with the 400 error; a successful
  registration appends one user, with the lowercased email, unverified and active. When
  only the lowercased form of the email is stored, the existence check misses it and the
  insert is refused by the unique column.
\<close>

lemma register_exact_duplicate:
  "find (\<lambda>u. email u = mail) (users db) = Some u \<Longrightarrow>
   register hp st now new_id db fname lname mail password =
     Inl (HTTPException 400 ''Email address is already registered'')"
  by (simp add: register_def)

lemma register_case_variant:
  assumes "find (\<lambda>u. email u = mail) (users db) = None"
    and "fst (validate_password_strength password)"
    and "\<exists>u \<in> set (users db). email u = lower mail"
  shows "register hp st now new_id db fname lname mail password = Inl IntegrityError"
  using assms by (auto simp: register_def Let_def list_ex_iff split: prod.splits)

lemma register_success:
  assumes "register hp st now new_id db fname lname mail password = Inr (db', resp, tok)"
  shows "\<exists>u. db' = db\<lparr>users := users db @ [u]\<rparr> \<and> email u = lower mail \<and>
           \<not> is_verified u \<and> is_active u \<and> hashed_password u = hp password \<and>
           snd resp = lower mail \<and> tok = create_email_verification_token st now (lower mail)"
  using assms
  by (auto simp: register_def Let_def split: option.splits prod.splits if_splits)

lemma lower_example: "lower ''Alice@example.com'' = ''alice@example.com''"
  by code_simp

lemma strength_example: "validate_password_strength ''Passw0rd1'' = (True, ''Password is valid'')"
  by code_simp

text \<open>
  C3. With alice@example.com stored, registering Alice@example.com is not refused as a
  duplicate email: the existence check compares the email as typed, the insert of the
  lowercased email then violates the unique column, and the request ends in an unhandled
  \<open>IntegrityError\<close>.
\<close>

theorem register_case_variant_not_duplicate_email:
  "register hp st now ''u2''
     \<lparr>users = [\<lparr>u_id = ''u1'', first_name = ''Alice'', last_name = ''Smith'',
                email = ''alice@example.com'', hashed_password = h, is_active = True,
                is_verified = True, last_login = None\<rparr>],
      categories = [], expenses = []\<rparr>
     ''Alice'' ''Smith'' ''Alice@example.com'' ''Passw0rd1'' = Inl IntegrityError"
  by (simp add: register_def lower_example strength_example)

section \<open>Email verification\<close>

text \<open>
  C9. For a token that \<open>verify_email_token\<close> accepts, whose (non-empty) subject is the
  email of a stored user: if the user is already verified, \<open>verify_email\<close> succeeds with
  "already verified" and returns the store unchanged; and whatever the user's state,
  a second call with any valid token for the same email succeeds with "already
  verified" and leaves the store as the first call left it.
\<close>

theorem verify_email_idempotent:
  assumes tok: "verify_email_token st now t = Some mail"
      and ne: "mail \<noteq> []"
      and usr: "find (\<lambda>u. email u = mail) (users db) = Some u"
  shows "(is_verified u \<longrightarrow>
            verify_email st now db t = Inr (db, ''Email address is already verified'')) \<and>
         (\<forall>now' t'. verify_email_token st now' t' = Some mail \<longrightarrow>
            (\<exists>db1 msg. verify_email st now db t = Inr (db1, msg) \<and>
               verify_email st now' db1 t' = Inr (db1, ''Email address is already verified'')))"
proof (intro conjI allI impI)
  assume "is_verified u"
  with tok ne usr show "verify_email st now db t = Inr (db, ''Email address is already verified'')"
    by (simp add: verify_email_def)
next
  fix now' t'
  assume tok': "verify_email_token st now' t' = Some mail"
  have em: "email u = mail" using usr by (rule find_Some_email)
  show "\<exists>db1 msg. verify_email st now db t = Inr (db1, msg) \<and>
          verify_email st now' db1 t' = Inr (db1, ''Email address is already verified'')"
  proof (cases "is_verified u")
    case True
    with tok tok' ne usr show ?thesis by (simp add: verify_email_def)
  next
    case False
    let ?u' = "u\<lparr>is_verified := True\<rparr>"
    let ?db1 = "db\<lparr>users := update_user ?u' (users db)\<rparr>"
    have one: "verify_email st now db t =
        Inr (?db1, ''Email address verified successfully! You can now log in.'')"
      using tok ne usr False by (simp add: verify_email_def)
    have "find (\<lambda>u. email u = mail) (users ?db1) = Some ?u'"
      using find_update_user[OF usr, of ?u'] em by simp
    then have "verify_email st now' ?db1 t' = Inr (?db1, ''Email address is already verified'')"
      using tok' ne by (simp add: verify_email_def)
    with one show ?thesis by blast
  qed
qed

theorem verify_email_idempotent_witness:
  "verify_email example_settings 50 \<lparr>users = example_users, categories = [], expenses = []\<rparr>
     (create_email_verification_token example_settings 0 ''dan@example.com'')
   = Inr (\<lparr>users = example_users, categories = [], expenses = []\<rparr>,
          ''Email address is already verified'') \<and>
   (\<exists>db1 msg.
      verify_email example_settings 50 \<lparr>users = example_users, categories = [], expenses = []\<rparr>
        (create_email_verification_token example_settings 0 ''bob@example.com'') = Inr (db1, msg) \<and>
      verify_email example_settings 60 db1
        (create_email_verification_token example_settings 10 ''bob@example.com'') =
        Inr (db1, ''Email address is already verified''))"
proof -
  let ?db = "\<lparr>users = example_users, categories = [], expenses = []\<rparr>"
  have fd: "find (\<lambda>u. email u = ''dan@example.com'') (users ?db) = Some (example_users ! 2)"
    by (simp add: example_users_def)
  have fb: "find (\<lambda>u. email u = ''bob@example.com'') (users ?db) = Some (example_users ! 0)"
    by (simp add: example_users_def)
  have v: "is_verified (example_users ! 2)" by (simp add: example_users_def)
  have td: "verify_email_token example_settings 50
     (create_email_verification_token example_settings 0 ''dan@example.com'') = Some ''dan@example.com''"
    by (simp add: example_settings_def verify_email_token_def
        create_email_verification_token_def jwt_encode_def jwt_decode_def Let_def)
  have tb: "verify_email_token example_settings 50
     (create_email_verification_token example_settings 0 ''bob@example.com'') = Some ''bob@example.com''"
    by (simp add: example_settings_def verify_email_token_def
        create_email_verification_token_def jwt_encode_def jwt_decode_def Let_def)
  have tb': "verify_email_token example_settings 60
     (create_email_verification_token example_settings 10 ''bob@example.com'') = Some ''bob@example.com''"
    by (simp add: example_settings_def verify_email_token_def
        create_email_verification_token_def jwt_encode_def jwt_decode_def Let_def)
  have nd: "''dan@example.com'' \<noteq> []" and nb: "''bob@example.com'' \<noteq> []" by simp_all
  show ?thesis
    using verify_email_idempotent [OF td nd fd] verify_email_idempotent [OF tb nb fb] v tb'
    by blast
qed


section \<open>Deleting a category\<close>

lemma str_nat_decodes: "nat_of_str (str_nat n) = n"
proof (induction n rule: str_nat.induct)
  case (1 n)
  show ?case
  proof (cases "n < 10")
    case True
    then show ?thesis by (subst str_nat.simps) (simp add: nat_of_str_def)
  next
    case False
    then have ih: "nat_of_str (str_nat (n div 10)) = n div 10" using 1 by simp
    have "nat_of_str (str_nat n) =
        10 * nat_of_str (str_nat (n div 10)) + (of_char (char_of (48 + n mod 10) :: char) - 48)"
      using False by (subst str_nat.simps) (simp add: nat_of_str_def)
    also have "\<dots> = 10 * (n div 10) + n mod 10" using ih by simp
    finally show ?thesis by simp
  qed
qed

lemma find_Some_D: "find P xs = Some x \<Longrightarrow> P x \<and> x \<in> set xs"
  by (induction xs) (auto split: if_splits)

lemma str_nat_2: "str_nat (Suc (Suc 0)) = ''2''"
proof -
  have "str_nat 2 = ''2''" by code_simp
  then show ?thesis by (simp add: numeral_2_eq_2)
qed

text \<open>
  C6. \<open>delete_budget_category\<close>: a category that is missing or not the caller's gives
  404. For a category of the caller: without \<open>force\<close> and with at least one expense,
  400 with the number of its expenses in the message (and no new store); with
  \<open>force\<close>, the category row and every expense of the category are removed and nothing
  else changes; without \<open>force\<close> and with no expense, only the active flag of that
  category is set to false.
\<close>

theorem delete_category_cases:
  "(find (\<lambda>c. c_id c = cid \<and> c_user_id c = uid) (categories db) = None \<longrightarrow>
      delete_budget_category db uid cid force =
        Inl (HTTPException 404 ''Budget category not found'')) \<and>
   (\<forall>c. find (\<lambda>c. c_id c = cid \<and> c_user_id c = uid) (categories db) = Some c \<longrightarrow>
      (\<not> force \<and> filter (\<lambda>e. category_id e = cid \<and> e_user_id e = uid) (expenses db) \<noteq> [] \<longrightarrow>
         delete_budget_category db uid cid force =
           Inl (HTTPException 400
             (''Cannot delete category with '' @
              str_nat (length (filter (\<lambda>e. category_id e = cid \<and> e_user_id e = uid) (expenses db))) @
              '' associated expenses. Use force=true to override.''))) \<and>
      (force \<longrightarrow>
         delete_budget_category db uid cid force =
           Inr (db\<lparr>categories := filter (\<lambda>x. c_id x \<noteq> cid) (categories db),
                   expenses := filter (\<lambda>e. category_id e \<noteq> cid) (expenses db)\<rparr>,
                ''Budget category deleted successfully'')) \<and>
      (\<not> force \<and> filter (\<lambda>e. category_id e = cid \<and> e_user_id e = uid) (expenses db) = [] \<longrightarrow>
         delete_budget_category db uid cid force =
           Inr (db\<lparr>categories :=
                     map (\<lambda>x. if c_id x = cid then x\<lparr>c_is_active := False\<rparr> else x) (categories db)\<rparr>,
                ''Budget category deactivated successfully'')))"
proof (intro conjI allI impI)
  fix c
  assume f: "find (\<lambda>c. c_id c = cid \<and> c_user_id c = uid) (categories db) = Some c"
    and "force"
  have cid: "c_id c = cid" using find_Some_D[OF f] by simp
  have "filter (\<lambda>e. category_id e \<noteq> cid)
          (filter (\<lambda>e. \<not> (category_id e = cid \<and> e_user_id e = uid)) (expenses db)) =
        filter (\<lambda>e. category_id e \<noteq> cid) (expenses db)"
    by (induction "expenses db") (auto intro: filter_cong)
  then show "delete_budget_category db uid cid force =
           Inr (db\<lparr>categories := filter (\<lambda>x. c_id x \<noteq> cid) (categories db),
                   expenses := filter (\<lambda>e. category_id e \<noteq> cid) (expenses db)\<rparr>,
                ''Budget category deleted successfully'')"
    using f \<open>force\<close> cid by (simp add: delete_budget_category_def Let_def)
next
  fix c
  assume f: "find (\<lambda>c. c_id c = cid \<and> c_user_id c = uid) (categories db) = Some c"
  have cid: "c_id c = cid" using find_Some_D[OF f] by simp
  {
    assume "\<not> force \<and> filter (\<lambda>e. category_id e = cid \<and> e_user_id e = uid) (expenses db) \<noteq> []"
    then show "delete_budget_category db uid cid force =
           Inl (HTTPException 400
             (''Cannot delete category with '' @
              str_nat (length (filter (\<lambda>e. category_id e = cid \<and> e_user_id e = uid) (expenses db))) @
              '' associated expenses. Use force=true to override.''))"
      using f by (simp add: delete_budget_category_def Let_def)
  }
  {
    assume "\<not> force \<and> filter (\<lambda>e. category_id e = cid \<and> e_user_id e = uid) (expenses db) = []"
    then show "delete_budget_category db uid cid force =
           Inr (db\<lparr>categories :=
                     map (\<lambda>x. if c_id x = cid then x\<lparr>c_is_active := False\<rparr> else x) (categories db)\<rparr>,
                ''Budget category deactivated successfully'')"
      using f cid by (simp add: delete_budget_category_def Let_def)
  }
qed (simp add: delete_budget_category_def)

theorem delete_category_cases_witness:
  "delete_budget_category example_db ''u3'' ''c1'' False =
     Inl (HTTPException 400
       ''Cannot delete category with 2 associated expenses. Use force=true to override.'') \<and>
   delete_budget_category example_db ''u3'' ''c1'' True =
     Inr (example_db\<lparr>categories := filter (\<lambda>x. c_id x \<noteq> ''c1'') (categories example_db),
                      expenses := filter (\<lambda>e. category_id e \<noteq> ''c1'') (expenses example_db)\<rparr>,
          ''Budget category deleted successfully'') \<and>
   delete_budget_category example_db ''u3'' ''c3'' False =
     Inr (example_db\<lparr>categories :=
            map (\<lambda>x. if c_id x = ''c3'' then x\<lparr>c_is_active := False\<rparr> else x)
              (categories example_db)\<rparr>,
          ''Budget category deactivated successfully'') \<and>
   delete_budget_category example_db ''u1'' ''c1'' True =
     Inl (HTTPException 404 ''Budget category not found'')"
  using delete_category_cases [of "''c1''" "''u3''" example_db False]
    delete_category_cases [of "''c1''" "''u3''" example_db True]
    delete_category_cases [of "''c3''" "''u3''" example_db False]
    delete_category_cases [of "''c1''" "''u1''" example_db True]
  by (simp add: example_db_def str_nat_2)

section \<open>Guarded percentages\<close>

lemma bind_result_Inr [simp]: "bind_result (Inr v) f = f v"
  by (simp add: bind_result_def)

lemma bind_result_Inl [simp]: "bind_result (Inl e) f = Inl e"
  by (simp add: bind_result_def)

lemma guarded_percentage:
  "(if b > 0 then bind_result (py_div s b) (\<lambda>q. Inr (q * 100)) else Inr 0) =
   Inr (if b > 0 then s / b * 100 else 0)"
  by (simp add: py_div_def)

lemma map_result_Inr: "(\<And>x. f x = Inr (g x)) \<Longrightarrow> map_result f xs = Inr (map g xs)"
  by (induction xs) simp_all

lemma budget_summary_arguments_returns:
  "\<exists>r. budget_summary_arguments db uid = Inr r \<and>
       bs_budget_utilization r =
         (if bs_total_budget r > 0 then bs_total_spent r / bs_total_budget r * 100 else 0) \<and>
       (\<forall>(i, n, b, s, rem, u) \<in> set (bs_categories r).
          u = (if b > 0 then s / b * 100 else 0))"
proof -
  let ?g = "\<lambda>(i :: string, n :: string, b :: rat, s :: rat).
      (i, n, b, s, b - s, if b > 0 then s / b * 100 else 0)"
  have m: "map_result (\<lambda>(i, n, b, s).
              Inr (i, n, b, s, b - s, if 0 < b then s / b * 100 else 0)) rows =
           Inr (map ?g rows)" for rows :: "(string \<times> string \<times> rat \<times> rat) list"
    by (rule map_result_Inr) (simp split: prod.splits)
  have "\<exists>tb ts cs. budget_summary_arguments db uid =
      Inr \<lparr>bs_total_budget = tb, bs_total_spent = ts, bs_total_remaining = tb - ts,
           bs_budget_utilization = (if tb > 0 then ts / tb * 100 else 0),
           bs_category_count = length cs, bs_categories = map ?g cs\<rparr>"
    unfolding budget_summary_arguments_def Let_def
    apply (simp only: guarded_percentage bind_result_Inr)
    apply (simp only: m bind_result_Inr)
    apply (intro exI)
    apply (rule refl)
    done
  then obtain tb ts cs where "budget_summary_arguments db uid =
      Inr \<lparr>bs_total_budget = tb, bs_total_spent = ts, bs_total_remaining = tb - ts,
           bs_budget_utilization = (if tb > 0 then ts / tb * 100 else 0),
           bs_category_count = length cs, bs_categories = map ?g cs\<rparr>" by blast
  then show ?thesis by (auto split: prod.splits)
qed

lemma get_budget_summary_raises: "get_budget_summary db uid = Inl ValidationError"
proof -
  obtain r where "budget_summary_arguments db uid = Inr r"
    using budget_summary_arguments_returns[of db uid] by blast
  then show ?thesis
    by (simp add: get_budget_summary_def validate_model_def BudgetSummary_required_def)
qed

lemma get_financial_summary_returns:
  assumes "get_period_dates today period sd ed = Inr (ps, pe)"
  shows "\<exists>r. get_financial_summary today db uid period sd ed = Inr r \<and>
     fs_total_spent r = sum_list (map amount
        (filter (\<lambda>e. e_user_id e = uid \<and> in_period ps pe e) (expenses db))) \<and>
     fs_budget_utilization r =
       (let total_budget = sum_list (map budget_amount
              (filter (\<lambda>c. c_user_id c = uid \<and> c_is_active c) (categories db)))
        in if total_budget > 0 then fs_total_spent r / total_budget * 100 else 0) \<and>
     fs_savings_rate r =
       (let total_budget = sum_list (map budget_amount
              (filter (\<lambda>c. c_user_id c = uid \<and> c_is_active c) (categories db)))
        in if total_budget > 0 then (total_budget - fs_total_spent r) / total_budget * 100 else 0)"
proof -
  have d: "(if (0::int) < k then bind_result (py_div s (of_int k)) (\<lambda>q. Inr (q * 30)) else Inr s) =
      Inr (if 0 < k then s / of_int k * 30 else s)" for k s
    by (simp add: py_div_def)
  show ?thesis
    unfolding get_financial_summary_def Let_def assms guarded_percentage d
    by simp
qed

lemma get_financial_summary_error:
  "get_financial_summary today db uid period sd ed = Inl e \<Longrightarrow>
   get_period_dates today period sd ed = Inl e"
proof (cases "get_period_dates today period sd ed")
  case (Inl a)
  assume "get_financial_summary today db uid period sd ed = Inl e"
  with Inl show ?thesis by (simp add: get_financial_summary_def)
next
  case (Inr p)
  assume e: "get_financial_summary today db uid period sd ed = Inl e"
  obtain ps pe where "p = (ps, pe)" by (cases p)
  with Inr get_financial_summary_returns[of today period sd ed ps pe db uid] e
  show ?thesis by auto
qed

lemma get_category_breakdown_returns:
  assumes "get_period_dates today period sd ed = Inr (ps, pe)"
  shows "get_category_breakdown today db uid period sd ed =
     Inr (map (\<lambda>(n, b, s).
            \<lparr>cb_category_name = n, cb_spent = s, cb_budget = b,
             cb_percentage =
               (if sum_list (map (\<lambda>(n, b, s). s) (category_spending db uid ps pe)) > 0
                  then s / sum_list (map (\<lambda>(n, b, s). s) (category_spending db uid ps pe)) * 100
                else 0),
             cb_utilization = (if b > 0 then s / b * 100 else 0)\<rparr>)
          (category_spending db uid ps pe))"
  unfolding get_category_breakdown_def Let_def assms
  by (simp, rule map_result_Inr) (simp add: py_div_def split: prod.splits)

lemma get_category_breakdown_error:
  "get_category_breakdown today db uid period sd ed = Inl e \<Longrightarrow>
   get_period_dates today period sd ed = Inl e"
proof (cases "get_period_dates today period sd ed")
  case (Inl a)
  assume "get_category_breakdown today db uid period sd ed = Inl e"
  with Inl show ?thesis by (simp add: get_category_breakdown_def)
next
  case (Inr p)
  assume e: "get_category_breakdown today db uid period sd ed = Inl e"
  obtain ps pe where "p = (ps, pe)" by (cases p)
  with Inr get_category_breakdown_returns[of today period sd ed ps pe db uid] e
  show ?thesis by auto
qed


lemma get_period_dates_error:
  "get_period_dates today period sd ed = Inl e \<Longrightarrow> e = ValueError \<or> e = OverflowError"
  by (auto simp: get_period_dates_def bind_result_def replace_def mk_date_def add_days_def
      sub_days_def Let_def split: sum.splits if_splits)

lemma in_concat_map: "x \<in> set (concat (map f xs)) \<Longrightarrow> \<exists>y \<in> set xs. x \<in> set (f y)"
  by auto

lemma get_financial_insights_alerts:
  assumes "get_financial_insights today db uid = Inr ins" and "i \<in> set ins"
    and "i_message_utilization i = Some u"
  shows "\<exists>ms. replace today None None (Some 1) = Inr ms \<and>
     (\<exists>(n, b, s) \<in> set (category_spending db uid ms today).
        i_category i = Some n \<and> i_amount i = Some s \<and>
        u = (if b > 0 then s / b * 100 else 0))"
proof (cases "replace today None None (Some 1)")
  case (Inl a)
  with assms(1) show ?thesis by (simp add: get_financial_insights_def)
next
  case (Inr ms)
  let ?rows = "category_spending db uid ms today"
  let ?alert = "\<lambda>(n :: string, b :: rat, s :: rat).
      (if (if b > 0 then s / b * 100 else 0) \<ge> 90 then
         [\<lparr>i_type = DANGER, i_title = ''Budget Nearly Exceeded'',
           i_message_utilization = Some (if b > 0 then s / b * 100 else 0),
           i_amount = Some s, i_category = Some n\<rparr>]
       else if (if b > 0 then s / b * 100 else 0) \<ge> 75 then
         [\<lparr>i_type = WARNING, i_title = ''High Budget Usage'',
           i_message_utilization = Some (if b > 0 then s / b * 100 else 0),
           i_amount = Some s, i_category = Some n\<rparr>]
       else [])"
  have m: "map_result (\<lambda>(n, b, s).
               bind_result
                 (if b > 0 then bind_result (py_div s b) (\<lambda>q. Inr (q * 100)) else Inr 0)
                 (\<lambda>utilization.
                    Inr (if utilization \<ge> 90 then
                           [\<lparr>i_type = DANGER, i_title = ''Budget Nearly Exceeded'',
                             i_message_utilization = Some utilization,
                             i_amount = Some s, i_category = Some n\<rparr>]
                         else if utilization \<ge> 75 then
                           [\<lparr>i_type = WARNING, i_title = ''High Budget Usage'',
                             i_message_utilization = Some utilization,
                             i_amount = Some s, i_category = Some n\<rparr>]
                         else []))) ?rows = Inr (map ?alert ?rows)"
    by (rule map_result_Inr) (simp only: guarded_percentage bind_result_Inr split: prod.splits, simp)
  have "\<exists>infos. get_financial_insights today db uid = Inr (concat (map ?alert ?rows) @ infos) \<and>
          (\<forall>x \<in> set infos. i_message_utilization x = None)"
    unfolding get_financial_insights_def Inr bind_result_Inr Let_def m
    by auto
  then obtain infos where ins: "ins = concat (map ?alert ?rows) @ infos"
    and infos: "\<forall>x \<in> set infos. i_message_utilization x = None"
    using assms(1) by auto
  from assms(2) ins have "i \<in> set (concat (map ?alert ?rows)) \<or> i \<in> set infos"
    by (simp only: set_append Un_iff)
  moreover from infos assms(3) have "i \<notin> set infos" by force
  ultimately have "i \<in> set (concat (map ?alert ?rows))" by blast
  from in_concat_map[OF this]
  obtain row where row: "row \<in> set ?rows" "i \<in> set (?alert row)" by blast
  obtain n b s where nbs: "row = (n, b, s)" by (cases row)
  from row(2) nbs assms(3) have "i_category i = Some n \<and> i_amount i = Some s \<and>
        u = (if b > 0 then s / b * 100 else 0)"
    by (auto split: if_splits)
  with row(1) nbs Inr show ?thesis by auto
qed

lemma get_financial_insights_error:
  "get_financial_insights today db uid = Inl e \<Longrightarrow> e = ValueError"
proof (cases "replace today None None (Some 1)")
  case (Inl a)
  assume "get_financial_insights today db uid = Inl e"
  with Inl have "a = e" by (simp add: get_financial_insights_def)
  moreover from Inl have "a = ValueError"
    by (auto simp: replace_def mk_date_def Let_def split: if_splits)
  ultimately show ?thesis by simp
next
  case (Inr ms)
  assume e: "get_financial_insights today db uid = Inl e"
  have m: "\<exists>r. map_result (\<lambda>(n, b, s).
               bind_result
                 (if b > 0 then bind_result (py_div s b) (\<lambda>q. Inr (q * 100)) else Inr 0)
                 (\<lambda>utilization.
                    Inr (if utilization \<ge> 90 then
                           [\<lparr>i_type = DANGER, i_title = ''Budget Nearly Exceeded'',
                             i_message_utilization = Some utilization,
                             i_amount = Some s, i_category = Some n\<rparr>]
                         else if utilization \<ge> 75 then
                           [\<lparr>i_type = WARNING, i_title = ''High Budget Usage'',
                             i_message_utilization = Some utilization,
                             i_amount = Some s, i_category = Some n\<rparr>]
                         else []))) rows = Inr r" for rows :: "(string \<times> rat \<times> rat) list"
    by (induction rows) (auto simp: guarded_percentage)
  from e show ?thesis
    unfolding get_financial_insights_def Inr bind_result_Inr Let_def
    using m[of "category_spending db uid ms today"] by auto
qed


lemma example_arguments_u3:
  "\<exists>r. budget_summary_arguments example_db ''u3'' = Inr r \<and> bs_total_budget r = 150 \<and>
       bs_total_spent r = 151 / 2"
  by (simp add: budget_summary_arguments_def example_db_def py_div_def Let_def)

lemma example_arguments_u1:
  "\<exists>r. budget_summary_arguments example_db ''u1'' = Inr r \<and> bs_total_budget r = 0"
  by (simp add: budget_summary_arguments_def example_db_def py_div_def Let_def)

lemma example_month: "get_period_dates \<lparr>year = 2024, month = 3, day = 15\<rparr> MONTH None None =
    Inr (\<lparr>year = 2024, month = 3, day = 1\<rparr>, \<lparr>year = 2024, month = 3, day = 31\<rparr>)"
  by code_simp

lemma example_march_u3:
  "filter (\<lambda>e. e_user_id e = ''u3'' \<and>
        in_period \<lparr>year = 2024, month = 3, day = 1\<rparr> \<lparr>year = 2024, month = 3, day = 31\<rparr> e)
      (expenses example_db) = expenses example_db"
  by (simp add: example_db_def in_period_def datetime_le_def datetime_key_def at_midnight_def)

lemma example_financial_summary_u3:
  "\<exists>r. get_financial_summary \<lparr>year = 2024, month = 3, day = 15\<rparr> example_db ''u3'' MONTH
          None None = Inr r \<and> fs_total_spent r = 191 / 2"
proof -
  have "sum_list (map amount (expenses example_db)) = 191 / 2" by (simp add: example_db_def)
  with get_financial_summary_returns[OF example_month, of example_db "''u3''"]
  show ?thesis unfolding example_march_u3 by auto
qed

lemma example_total_budget_u3:
  "sum_list (map budget_amount
     (filter (\<lambda>c. c_user_id c = ''u3'' \<and> c_is_active c) (categories example_db))) = 150"
  by (simp add: example_db_def)

lemma example_breakdown_u3:
  "get_category_breakdown \<lparr>year = 2024, month = 3, day = 15\<rparr> example_db ''u3'' MONTH None None =
     Inr [\<lparr>cb_category_name = ''Food'', cb_spent = 151 / 2, cb_budget = 100,
           cb_percentage = 100, cb_utilization = 151 / 2\<rparr>,
          \<lparr>cb_category_name = ''Books'', cb_spent = 0, cb_budget = 50,
           cb_percentage = 0, cb_utilization = 0\<rparr>]"
  unfolding get_category_breakdown_returns[OF example_month]
  by (simp add: category_spending_def example_db_def in_period_def datetime_le_def
      datetime_key_def at_midnight_def)

lemma example_insights_u3:
  "get_financial_insights \<lparr>year = 2024, month = 3, day = 15\<rparr> example_db ''u3'' =
     Inr [\<lparr>i_type = WARNING, i_title = ''High Budget Usage'',
           i_message_utilization = Some (151 / 2), i_amount = Some (151 / 2),
           i_category = Some ''Food''\<rparr>,
          \<lparr>i_type = INFO, i_title = ''Unused Budget'', i_message_utilization = None,
           i_amount = None, i_category = Some ''Books''\<rparr>]"
  by (simp add: get_financial_insights_def replace_def mk_date_def valid_date_def
      days_in_month_def category_spending_def example_db_def in_period_def datetime_le_def
      datetime_key_def at_midnight_def py_div_def Let_def)

text \<open>
  C8. No derived computation divides by zero: the budget overview, the financial
  summary, the category breakdown and the insights never raise \<open>ZeroDivisionError\<close>,
  for any store, caller, day and period. Every utilization they compute is spent /
  budget * 100 when the budget is positive and 0 otherwise, and the savings rate of the
  financial summary is (budget - spent) / budget * 100 when the total budget is positive
  and 0 otherwise. For the budget overview these are the figures the handler computes
  and hands to its response model.
\<close>

theorem utilization_zero_safe:
  "get_budget_summary db uid \<noteq> Inl ZeroDivisionError \<and>
   get_financial_summary today db uid period sd ed \<noteq> Inl ZeroDivisionError \<and>
   get_category_breakdown today db uid period sd ed \<noteq> Inl ZeroDivisionError \<and>
   get_financial_insights today db uid \<noteq> Inl ZeroDivisionError \<and>
   (\<exists>r. budget_summary_arguments db uid = Inr r \<and>
      bs_budget_utilization r =
        (if bs_total_budget r > 0 then bs_total_spent r / bs_total_budget r * 100 else 0) \<and>
      (\<forall>(i, n, b, s, rem, u) \<in> set (bs_categories r).
         u = (if b > 0 then s / b * 100 else 0))) \<and>
   (\<forall>r. get_financial_summary today db uid period sd ed = Inr r \<longrightarrow>
      fs_budget_utilization r =
        (let total_budget = sum_list (map budget_amount
               (filter (\<lambda>c. c_user_id c = uid \<and> c_is_active c) (categories db)))
         in if total_budget > 0 then fs_total_spent r / total_budget * 100 else 0) \<and>
      fs_savings_rate r =
        (let total_budget = sum_list (map budget_amount
               (filter (\<lambda>c. c_user_id c = uid \<and> c_is_active c) (categories db)))
         in if total_budget > 0
              then (total_budget - fs_total_spent r) / total_budget * 100 else 0)) \<and>
   (\<forall>rows. get_category_breakdown today db uid period sd ed = Inr rows \<longrightarrow>
      (\<forall>x \<in> set rows.
         cb_utilization x = (if cb_budget x > 0 then cb_spent x / cb_budget x * 100 else 0))) \<and>
   (\<forall>ins. get_financial_insights today db uid = Inr ins \<longrightarrow>
      (\<forall>i \<in> set ins. \<forall>u. i_message_utilization i = Some u \<longrightarrow>
         (\<exists>ms. replace today None None (Some 1) = Inr ms \<and>
            (\<exists>(n, b, s) \<in> set (category_spending db uid ms today).
               i_category i = Some n \<and> i_amount i = Some s \<and>
               u = (if b > 0 then s / b * 100 else 0)))))"
proof (intro conjI allI impI)
  show "get_budget_summary db uid \<noteq> Inl ZeroDivisionError"
    by (simp add: get_budget_summary_raises)
  show "get_financial_summary today db uid period sd ed \<noteq> Inl ZeroDivisionError"
    using get_financial_summary_error[of today db uid period sd ed ZeroDivisionError]
      get_period_dates_error[of today period sd ed ZeroDivisionError] by auto
  show "get_category_breakdown today db uid period sd ed \<noteq> Inl ZeroDivisionError"
    using get_category_breakdown_error[of today db uid period sd ed ZeroDivisionError]
      get_period_dates_error[of today period sd ed ZeroDivisionError] by auto
  show "get_financial_insights today db uid \<noteq> Inl ZeroDivisionError"
    using get_financial_insights_error[of today db uid ZeroDivisionError] by auto
  show "\<exists>r. budget_summary_arguments db uid = Inr r \<and>
      bs_budget_utilization r =
        (if bs_total_budget r > 0 then bs_total_spent r / bs_total_budget r * 100 else 0) \<and>
      (\<forall>(i, n, b, s, rem, u) \<in> set (bs_categories r).
         u = (if b > 0 then s / b * 100 else 0))"
    by (rule budget_summary_arguments_returns)
next
  fix r assume r: "get_financial_summary today db uid period sd ed = Inr r"
  then obtain ps pe where p: "get_period_dates today period sd ed = Inr (ps, pe)"
    by (cases "get_period_dates today period sd ed")
       (auto simp: get_financial_summary_def)
  from get_financial_summary_returns[OF p, of db uid] r
  show "fs_budget_utilization r =
        (let total_budget = sum_list (map budget_amount
               (filter (\<lambda>c. c_user_id c = uid \<and> c_is_active c) (categories db)))
         in if total_budget > 0 then fs_total_spent r / total_budget * 100 else 0)"
    and "fs_savings_rate r =
        (let total_budget = sum_list (map budget_amount
               (filter (\<lambda>c. c_user_id c = uid \<and> c_is_active c) (categories db)))
         in if total_budget > 0
              then (total_budget - fs_total_spent r) / total_budget * 100 else 0)"
    by auto
next
  fix rows
  assume r: "get_category_breakdown today db uid period sd ed = Inr rows"
  then obtain ps pe where p: "get_period_dates today period sd ed = Inr (ps, pe)"
    by (cases "get_period_dates today period sd ed")
       (auto simp: get_category_breakdown_def)
  from get_category_breakdown_returns[OF p, of db uid] r
  show "\<forall>x \<in> set rows.
         cb_utilization x = (if cb_budget x > 0 then cb_spent x / cb_budget x * 100 else 0)"
    by auto
next
  fix ins
  assume "get_financial_insights today db uid = Inr ins"
  then show "\<forall>i \<in> set ins. \<forall>u. i_message_utilization i = Some u \<longrightarrow>
         (\<exists>ms. replace today None None (Some 1) = Inr ms \<and>
            (\<exists>(n, b, s) \<in> set (category_spending db uid ms today).
               i_category i = Some n \<and> i_amount i = Some s \<and>
               u = (if b > 0 then s / b * 100 else 0)))"
    using get_financial_insights_alerts[of today db uid ins] by blast
qed

theorem utilization_zero_safe_witness:
  "(\<exists>r. get_financial_summary \<lparr>year = 2024, month = 3, day = 15\<rparr> example_db ''u3'' MONTH
          None None = Inr r \<and>
        fs_total_spent r = 191 / 2 \<and> fs_budget_utilization r = 191 / 3 \<and>
        fs_savings_rate r = 109 / 3) \<and>
   (\<exists>rows. get_category_breakdown \<lparr>year = 2024, month = 3, day = 15\<rparr> example_db ''u3'' MONTH
          None None = Inr rows \<and>
        map (\<lambda>x. (cb_category_name x, cb_spent x, cb_budget x, cb_utilization x)) rows =
          [(''Food'', 151 / 2, 100, 151 / 2), (''Books'', 0, 50, 0)]) \<and>
   (\<exists>ins. get_financial_insights \<lparr>year = 2024, month = 3, day = 15\<rparr> example_db ''u3'' = Inr ins \<and>
        map (\<lambda>i. (i_type i, i_category i, i_message_utilization i)) ins =
          [(WARNING, Some ''Food'', Some (151 / 2)), (INFO, Some ''Books'', None)]) \<and>
   (\<exists>r. budget_summary_arguments example_db ''u3'' = Inr r \<and> bs_total_budget r = 150 \<and>
        bs_total_spent r = 151 / 2 \<and> bs_budget_utilization r = 151 / 3) \<and>
   (\<exists>r. budget_summary_arguments example_db ''u1'' = Inr r \<and> bs_total_budget r = 0 \<and>
        bs_budget_utilization r = 0) \<and>
   get_budget_summary example_db ''u3'' \<noteq> Inl ZeroDivisionError"
proof -
  note t3 = utilization_zero_safe [of example_db "''u3''" "\<lparr>year = 2024, month = 3, day = 15\<rparr>"
      MONTH None None]
  note t1 = utilization_zero_safe [of example_db "''u1''" "\<lparr>year = 2024, month = 3, day = 15\<rparr>"
      MONTH None None]
  obtain fs where fs: "get_financial_summary \<lparr>year = 2024, month = 3, day = 15\<rparr> example_db
      ''u3'' MONTH None None = Inr fs" "fs_total_spent fs = 191 / 2"
    using example_financial_summary_u3 by blast
  have "fs_budget_utilization fs = 191 / 3 \<and> fs_savings_rate fs = 109 / 3"
    using t3 fs by (simp add: example_total_budget_u3)
  with fs have one: "\<exists>r. get_financial_summary \<lparr>year = 2024, month = 3, day = 15\<rparr> example_db
      ''u3'' MONTH None None = Inr r \<and>
        fs_total_spent r = 191 / 2 \<and> fs_budget_utilization r = 191 / 3 \<and>
        fs_savings_rate r = 109 / 3" by blast
  have two: "\<exists>rows. get_category_breakdown \<lparr>year = 2024, month = 3, day = 15\<rparr> example_db ''u3''
          MONTH None None = Inr rows \<and>
        map (\<lambda>x. (cb_category_name x, cb_spent x, cb_budget x, cb_utilization x)) rows =
          [(''Food'', 151 / 2, 100, 151 / 2), (''Books'', 0, 50, 0)]"
    by (simp add: example_breakdown_u3)
  have three: "\<exists>ins. get_financial_insights \<lparr>year = 2024, month = 3, day = 15\<rparr> example_db ''u3''
          = Inr ins \<and>
        map (\<lambda>i. (i_type i, i_category i, i_message_utilization i)) ins =
          [(WARNING, Some ''Food'', Some (151 / 2)), (INFO, Some ''Books'', None)]"
    by (simp add: example_insights_u3)
  obtain r3 where r3: "budget_summary_arguments example_db ''u3'' = Inr r3"
    "bs_total_budget r3 = 150" "bs_total_spent r3 = 151 / 2"
    using example_arguments_u3 by blast
  obtain r1 where r1: "budget_summary_arguments example_db ''u1'' = Inr r1"
    "bs_total_budget r1 = 0"
    using example_arguments_u1 by blast
  have "bs_budget_utilization r3 = 151 / 3" using t3 r3 by simp
  with r3 have four: "\<exists>r. budget_summary_arguments example_db ''u3'' = Inr r \<and>
      bs_total_budget r = 150 \<and> bs_total_spent r = 151 / 2 \<and> bs_budget_utilization r = 151 / 3"
    by blast
  have "bs_budget_utilization r1 = 0" using t1 r1 by simp
  with r1 have five: "\<exists>r. budget_summary_arguments example_db ''u1'' = Inr r \<and>
      bs_total_budget r = 0 \<and> bs_budget_utilization r = 0" by blast
  have six: "get_budget_summary example_db ''u3'' \<noteq> Inl ZeroDivisionError" using t3 by blast
  from one two three four five six show ?thesis by blast
qed

section \<open>Financial summary against category breakdown\<close>










section \<open>Export\<close>








section \<open>Period resolution on every day\<close>

text \<open>
  What \<open>get_period_dates\<close> returns for a valid \<open>today\<close>, branch by branch: the explicit
  bounds for a custom period, the first of the month through today when a bound is
  missing, January 1 through December 31 for a year, the first through the last day of
  the month, the quarter for a today in January-September, \<open>ValueError\<close> for every
  today in October-December, and the Monday through the Sunday around today for a week.
\<close>

lemma days_in_month_bounds: "28 \<le> days_in_month y m \<and> days_in_month y m \<le> 31"
  by (simp add: days_in_month_def)

lemma mk_date_first:
  "1 \<le> y \<Longrightarrow> y \<le> 9999 \<Longrightarrow> 1 \<le> m \<Longrightarrow> m \<le> 12 \<Longrightarrow>
   mk_date y m 1 = Inr \<lparr>year = y, month = m, day = 1\<rparr>"
  using days_in_month_bounds[of y m] by (simp add: mk_date_def valid_date_def)

lemma sub_days_1: "sub_days d 1 = (if valid_date (prev_day d) then Inr (prev_day d) else Inl OverflowError)"
  by (simp add: sub_days_def add_days_def)

lemma replace_day_1:
  "valid_date today \<Longrightarrow>
   replace today None None (Some 1) = Inr \<lparr>year = year today, month = month today, day = 1\<rparr>"
  using days_in_month_bounds[of "year today" "month today"]
  by (simp add: replace_def mk_date_def valid_date_def)

lemma period_custom:
  "get_period_dates today CUSTOM (Some s) (Some e) = Inr (s, e)"
  by (simp add: get_period_dates_def)

lemma period_default:
  "valid_date today \<Longrightarrow> sd = None \<or> ed = None \<Longrightarrow>
   get_period_dates today CUSTOM sd ed =
     Inr (\<lparr>year = year today, month = month today, day = 1\<rparr>, today)"
  by (auto simp: get_period_dates_def replace_day_1)

lemma period_year:
  "valid_date today \<Longrightarrow>
   get_period_dates today YEAR sd ed =
     Inr (\<lparr>year = year today, month = 1, day = 1\<rparr>, \<lparr>year = year today, month = 12, day = 31\<rparr>)"
  by (simp add: get_period_dates_def replace_def mk_date_def valid_date_def days_in_month_def)

lemma period_month:
  assumes "valid_date today" and "month today < 12 \<or> year today < 9999"
  shows "get_period_dates today MONTH sd ed =
     Inr (\<lparr>year = year today, month = month today, day = 1\<rparr>,
          \<lparr>year = year today, month = month today,
           day = days_in_month (year today) (month today)\<rparr>)"
proof (cases "month today = 12")
  case True
  with assms show ?thesis
    by (simp add: get_period_dates_def replace_day_1 sub_days_1 replace_def mk_date_def
        valid_date_def prev_day_def days_in_month_def)
next
  case False
  with assms have m: "1 \<le> month today" "month today \<le> 11" by (auto simp: valid_date_def)
  have b: "1 \<le> days_in_month (year today) (month today)"
    using days_in_month_bounds[of "year today" "month today"] by simp
  have r: "replace today None (Some (month today + 1)) (Some 1) =
      Inr \<lparr>year = year today, month = month today + 1, day = 1\<rparr>"
    using assms(1) m by (simp add: replace_def mk_date_first valid_date_def)
  have p: "prev_day \<lparr>year = year today, month = month today + 1, day = 1\<rparr> =
      \<lparr>year = year today, month = month today,
       day = days_in_month (year today) (month today)\<rparr>"
    using m by (simp add: prev_day_def)
  show ?thesis
    using assms(1) m b False
    by (simp add: get_period_dates_def replace_day_1 r sub_days_1 p valid_date_def)
qed

lemma period_quarter:
  assumes "valid_date today" and "month today \<le> 9"
  shows "get_period_dates today QUARTER sd ed =
     Inr (\<lparr>year = year today, month = (month today - 1) div 3 * 3 + 1, day = 1\<rparr>,
          \<lparr>year = year today, month = (month today - 1) div 3 * 3 + 3,
           day = days_in_month (year today) ((month today - 1) div 3 * 3 + 3)\<rparr>)"
proof -
  define q where "q = (month today - 1) div 3 * 3 + 1"
  from assms have m: "1 \<le> month today" "month today \<le> 9" by (auto simp: valid_date_def)
  then have q: "1 \<le> q" "q \<le> 7" unfolding q_def by presburger+
  have y: "1 \<le> year today" "year today \<le> 9999" using assms(1) by (auto simp: valid_date_def)
  have r1: "replace today None (Some q) (Some 1) = Inr \<lparr>year = year today, month = q, day = 1\<rparr>"
    using q y by (simp add: replace_def mk_date_first)
  have r2: "replace today None (Some (q + 3)) (Some 1) =
      Inr \<lparr>year = year today, month = q + 3, day = 1\<rparr>"
    using q y by (simp add: replace_def mk_date_first)
  have p: "prev_day \<lparr>year = year today, month = q + 3, day = 1\<rparr> =
      \<lparr>year = year today, month = q + 2, day = days_in_month (year today) (q + 2)\<rparr>"
    using q by (simp add: prev_day_def add.commute)
  have b: "1 \<le> days_in_month (year today) (q + 2)"
    using days_in_month_bounds[of "year today" "q + 2"] by simp
  have "get_period_dates today QUARTER sd ed =
     Inr (\<lparr>year = year today, month = q, day = 1\<rparr>,
          \<lparr>year = year today, month = q + 2, day = days_in_month (year today) (q + 2)\<rparr>)"
    using q y b
    by (simp add: get_period_dates_def q_def[symmetric] Let_def r1 r2 sub_days_1 p valid_date_def)
  moreover have "q + 2 = (month today - 1) div 3 * 3 + 3" by (simp add: q_def)
  ultimately show ?thesis by (simp only: q_def)
qed

lemma period_quarter_last:
  assumes "valid_date today" and "10 \<le> month today"
  shows "get_period_dates today QUARTER sd ed = Inl ValueError"
proof -
  define q where "q = (month today - 1) div 3 * 3 + 1"
  from assms have m: "10 \<le> month today" "month today \<le> 12" by (auto simp: valid_date_def)
  then have q: "q = 10" unfolding q_def by presburger
  have y: "1 \<le> year today" "year today \<le> 9999" using assms(1) by (auto simp: valid_date_def)
  show ?thesis
    using y
    by (simp add: get_period_dates_def q_def[symmetric] Let_def q replace_def mk_date_def
        valid_date_def days_in_month_def)
qed


lemma days_before_month_step:
  "2 \<le> m \<Longrightarrow>
   days_before_month y (nat m) = days_before_month y (nat (m - 1)) + days_in_month y (m - 1)"
proof -
  assume m: "2 \<le> m"
  then have "nat m = Suc (nat (m - 1))" by simp
  moreover from m have "nat (m - 1) \<noteq> 0" by simp
  moreover from m have "int (nat (m - 1)) = m - 1" by simp
  ultimately show ?thesis by simp
qed

lemma days_before_month_12: "days_before_month y 12 = 334 + (if is_leap y then 1 else 0)"
  by (simp add: eval_nat_numeral days_in_month_def)

lemma days_before_month_1: "days_before_month y (nat 1) = 0"
  by simp


lemma div_step:
  assumes "0 < (k::int)"
  shows "y div k = (y - 1) div k + (if y mod k = 0 then 1 else 0)"
proof (cases "y mod k = 0")
  case True
  have "y - 1 = (k - 1) + k * (y div k - 1)"
    using True mult_div_mod_eq[of k y] by (simp add: algebra_simps)
  then have "(y - 1) div k = ((k - 1) + k * (y div k - 1)) div k"
    by (rule arg_cong[of _ _ "\<lambda>x. x div k"])
  also have "\<dots> = (y div k - 1) + (k - 1) div k" by (rule div_mult_self2) (use assms in simp)
  also have "(k - 1) div k = 0" using assms by (simp add: div_pos_pos_trivial)
  finally show ?thesis using True by simp
next
  case False
  have "0 \<le> y mod k" using assms by simp
  moreover have "y mod k < k" using assms by simp
  ultimately have r: "1 \<le> y mod k" "y mod k < k" using False by linarith+
  have "y - 1 = (y mod k - 1) + k * (y div k)"
    using mult_div_mod_eq[of k y] by (simp add: algebra_simps)
  then have "(y - 1) div k = ((y mod k - 1) + k * (y div k)) div k"
    by (rule arg_cong[of _ _ "\<lambda>x. x div k"])
  also have "\<dots> = y div k + (y mod k - 1) div k" by (rule div_mult_self2) (use assms in simp)
  also have "(y mod k - 1) div k = 0" using r by (simp add: div_pos_pos_trivial)
  finally show ?thesis using False by simp
qed

lemma mod_400_100: "(y::int) mod 400 = 0 \<Longrightarrow> y mod 100 = 0"
  using mod_mod_cancel[of 100 400 y] by simp

lemma mod_100_4: "(y::int) mod 100 = 0 \<Longrightarrow> y mod 4 = 0"
  using mod_mod_cancel[of 4 100 y] by simp

lemma days_before_year_step:
  "days_before_year (y + 1) = days_before_year y + 365 + (if is_leap y then 1 else 0)"
proof -
  define p4 p100 p400 where "p4 \<longleftrightarrow> y mod 4 = 0" and "p100 \<longleftrightarrow> y mod 100 = 0"
    and "p400 \<longleftrightarrow> y mod 400 = 0"
  define a4 a100 a400 where "a4 = (y - 1) div 4" and "a100 = (y - 1) div 100"
    and "a400 = (y - 1) div 400"
  define b4 b100 b400 where "b4 = y div 4" and "b100 = y div 100" and "b400 = y div 400"
  have e4: "b4 = a4 + (if p4 then 1 else 0)"
    unfolding b4_def a4_def p4_def by (rule div_step) simp
  have e100: "b100 = a100 + (if p100 then 1 else 0)"
    unfolding b100_def a100_def p100_def by (rule div_step) simp
  have e400: "b400 = a400 + (if p400 then 1 else 0)"
    unfolding b400_def a400_def p400_def by (rule div_step) simp
  have i1: "p400 \<Longrightarrow> p100" unfolding p400_def p100_def by (rule mod_400_100)
  have i2: "p100 \<Longrightarrow> p4" unfolding p100_def p4_def by (rule mod_100_4)
  have leap: "is_leap y \<longleftrightarrow> p4 \<and> (\<not> p100 \<or> p400)"
    unfolding is_leap_def p4_def p100_def p400_def by (rule refl)
  have l: "days_before_year (y + 1) = y * 365 + b4 - b100 + b400"
    unfolding days_before_year_def b4_def b100_def b400_def by (simp only: add_diff_cancel_right')
  have r: "days_before_year y = (y - 1) * 365 + a4 - a100 + a400"
    unfolding days_before_year_def a4_def a100_def a400_def by (rule refl)
  show ?thesis
    unfolding l r leap e4 e100 e400 using i1 i2
    by (cases p4; cases p100; cases p400) (simp_all add: algebra_simps)
qed
lemma toordinal_prev_day: "valid_date d \<Longrightarrow> toordinal (prev_day d) = toordinal d - 1"
proof -
  assume v: "valid_date d"
  consider "1 < day d" | "day d = 1" "1 < month d" | "day d = 1" "month d = 1"
    using v by (fastforce simp: valid_date_def)
  then show ?thesis
  proof cases
    case 1
    then show ?thesis by (simp add: prev_day_def toordinal_def)
  next
    case 2
    then have "2 \<le> month d" by simp
    from days_before_month_step[OF this, of "year d"] 2 show ?thesis
      by (simp add: prev_day_def toordinal_def)
  next
    case 3
    have "days_before_year (year d) =
        days_before_year (year d - 1) + 365 + (if is_leap (year d - 1) then 1 else 0)"
      using days_before_year_step[of "year d - 1"] by simp
    with 3 show ?thesis
      by (simp add: prev_day_def toordinal_def days_before_month_12)
  qed
qed

lemma toordinal_next_day: "valid_date d \<Longrightarrow> toordinal (next_day d) = toordinal d + 1"
proof -
  assume v: "valid_date d"
  consider "day d < days_in_month (year d) (month d)"
    | "day d = days_in_month (year d) (month d)" "month d < 12"
    | "day d = days_in_month (year d) (month d)" "month d = 12"
    using v by (fastforce simp: valid_date_def)
  then show ?thesis
  proof cases
    case 1
    then show ?thesis by (simp add: next_day_def toordinal_def)
  next
    case 2
    from v have "2 \<le> month d + 1" by (simp add: valid_date_def)
    from days_before_month_step[OF this, of "year d"] 2 show ?thesis
      by (simp add: next_day_def toordinal_def)
  next
    case 3
    then have "day d = 31" by (simp add: days_in_month_def)
    with 3 show ?thesis
      using days_before_year_step[of "year d"]
      by (simp add: next_day_def toordinal_def days_before_month_12)
  qed
qed

lemma valid_prev_day:
  "valid_date d \<Longrightarrow> 1 < year d \<or> 1 < month d \<or> 1 < day d \<Longrightarrow> valid_date (prev_day d)"
  using days_in_month_bounds[of "year d" "month d - 1"]
  by (auto simp: valid_date_def prev_day_def days_in_month_def)

lemma valid_next_day:
  "valid_date d \<Longrightarrow> year d < 9999 \<or> month d < 12 \<or> day d < 31 \<Longrightarrow> valid_date (next_day d)"
  using days_in_month_bounds[of "year d" "month d + 1"]
  by (auto simp: valid_date_def next_day_def days_in_month_def)

lemma days_before_month_nonneg: "0 \<le> days_before_month y k"
proof (induction k)
  case 0
  then show ?case by simp
next
  case (Suc k)
  then show ?case using days_in_month_bounds[of y "int k"] by simp
qed

lemma days_before_year_nonneg: "1 \<le> y \<Longrightarrow> 0 \<le> days_before_year y"
proof -
  assume y: "1 \<le> y"
  define a4 a100 a400 where "a4 = (y - 1) div 4" and "a100 = (y - 1) div 100"
    and "a400 = (y - 1) div 400"
  have "a100 \<le> a4" unfolding a100_def a4_def by (rule zdiv_mono2) (use y in simp_all)
  moreover have "0 \<le> a400" unfolding a400_def using y by (simp add: pos_imp_zdiv_nonneg_iff)
  moreover have "0 \<le> (y - 1) * 365" using y by simp
  moreover have "days_before_year y = (y - 1) * 365 + a4 - a100 + a400"
    unfolding days_before_year_def a4_def a100_def a400_def by (rule refl)
  ultimately show ?thesis by linarith
qed

lemma toordinal_pos: "valid_date d \<Longrightarrow> 1 \<le> toordinal d"
  using days_before_year_nonneg[of "year d"] days_before_month_nonneg[of "year d" "nat (month d)"]
  by (simp add: toordinal_def valid_date_def)

lemma not_first_day:
  assumes "valid_date d" and "1 < toordinal d"
  shows "1 < year d \<or> 1 < month d \<or> 1 < day d"
proof (rule ccontr)
  assume "\<not> ?thesis"
  with assms(1) have "year d = 1" "month d = 1" "day d = 1" by (auto simp: valid_date_def)
  then have "toordinal d = 1" by (simp add: toordinal_def days_before_year_def)
  with assms(2) show False by simp
qed

lemma not_last_day:
  assumes "valid_date d" and "toordinal d < 3652059"
  shows "year d < 9999 \<or> month d < 12 \<or> day d < 31"
proof (rule ccontr)
  assume "\<not> ?thesis"
  with assms(1) have "year d = 9999" "month d = 12" "day d = 31"
    using days_in_month_bounds[of "year d" "month d"] by (auto simp: valid_date_def)
  then have "toordinal d = 3652059"
    by (simp add: toordinal_def days_before_year_def days_before_month_12 is_leap_def)
  with assms(2) show False by simp
qed

lemma prev_day_iter:
  "valid_date d \<Longrightarrow> int k < toordinal d \<Longrightarrow>
   valid_date ((prev_day ^^ k) d) \<and> toordinal ((prev_day ^^ k) d) = toordinal d - int k"
proof (induction k)
  case 0
  then show ?case by simp
next
  case (Suc k)
  then have ih: "valid_date ((prev_day ^^ k) d)"
    "toordinal ((prev_day ^^ k) d) = toordinal d - int k" by simp_all
  with Suc.prems have "1 < toordinal ((prev_day ^^ k) d)" by simp
  with ih(1) have "valid_date (prev_day ((prev_day ^^ k) d))"
    by (intro valid_prev_day not_first_day)
  moreover have "toordinal (prev_day ((prev_day ^^ k) d)) = toordinal d - int (Suc k)"
    using toordinal_prev_day[OF ih(1)] ih(2) by simp
  ultimately show ?case by simp
qed

lemma next_day_iter:
  "valid_date d \<Longrightarrow> toordinal d + int k \<le> 3652059 \<Longrightarrow>
   valid_date ((next_day ^^ k) d) \<and> toordinal ((next_day ^^ k) d) = toordinal d + int k"
proof (induction k)
  case 0
  then show ?case by simp
next
  case (Suc k)
  then have ih: "valid_date ((next_day ^^ k) d)"
    "toordinal ((next_day ^^ k) d) = toordinal d + int k" by simp_all
  with Suc.prems have "toordinal ((next_day ^^ k) d) < 3652059" by simp
  with ih(1) have "valid_date (next_day ((next_day ^^ k) d))"
    by (intro valid_next_day not_last_day)
  moreover have "toordinal (next_day ((next_day ^^ k) d)) = toordinal d + int (Suc k)"
    using toordinal_next_day[OF ih(1)] ih(2) by simp
  ultimately show ?case by simp
qed

lemma period_week:
  assumes v: "valid_date today" and hi: "toordinal today - weekday today + 6 \<le> 3652059"
  shows "\<exists>start end. get_period_dates today WEEK sd ed = Inr (start, end) \<and>
     valid_date start \<and> valid_date end \<and>
     toordinal start = toordinal today - weekday today \<and>
     toordinal end = toordinal start + 6 \<and>
     toordinal start \<le> toordinal today \<and> toordinal today \<le> toordinal end \<and>
     weekday start = 0 \<and> weekday end = 6"
proof -
  define t where "t = toordinal today"
  define w where "w = weekday today"
  have t1: "1 \<le> t" unfolding t_def using v by (rule toordinal_pos)
  have w: "w = (t + 6) mod 7" by (simp add: w_def t_def weekday_def)
  have w0: "0 \<le> w" and w6: "w \<le> 6" unfolding w by simp_all
  have wt: "w < t" using t1 unfolding w by presburger
  define start where "start = (prev_day ^^ nat w) today"
  have s: "valid_date start" "toordinal start = t - w"
    using prev_day_iter[OF v, of "nat w"] w0 wt by (simp_all add: start_def t_def)
  have sub: "sub_days today w = Inr start"
    using s(1) w0 by (auto simp: sub_days_def add_days_def start_def Let_def)
  define end' where "end' = (next_day ^^ 6) start"
  have e: "valid_date end'" "toordinal end' = toordinal start + 6"
    using next_day_iter[OF s(1), of 6] s(2) hi by (simp_all add: end'_def t_def w_def)
  have add: "add_days start 6 = Inr end'"
    using e(1) by (simp add: add_days_def end'_def)
  have ws: "weekday start = 0" unfolding weekday_def s(2) w by presburger
  have we: "weekday end' = 6" unfolding weekday_def e(2) s(2) w by presburger
  have "get_period_dates today WEEK sd ed = Inr (start, end')"
    by (simp add: get_period_dates_def w_def[symmetric] sub add bind_result_def)
  with s e ws we w0 w6 show ?thesis by (auto simp: t_def w_def)
qed

text \<open>The export inherits the failure of the quarter period in October-December.\<close>

lemma export_quarter_last:
  "valid_date today \<Longrightarrow> 10 \<le> month today \<Longrightarrow>
   export_report_data today db uid CSV QUARTER sd ed = Inl ValueError"
  by (simp add: export_report_data_def period_quarter_last)

end
